theory Spec2Isabelle
  imports Main "HOL-Library.AList"
begin

section \<open>The chat broker: data model\<close>

text \<open>
  The backend is \<open>server.js\<close> (routes and socket handlers) over the Mongoose models of
  \<open>models.js\<close>. A collection is the list of its documents in the order the store
  returns them; an update in place keeps the position of a document, a save appends.
  The in-memory \<open>Map\<close>s of \<open>server.js\<close> are association lists with the semantics of a
  JavaScript Map (\<open>set\<close> on an existing key keeps its position). Identifiers are
  strings; a date is the number of milliseconds \<open>Date.now()\<close> returns, and a handler
  reads the clock once (the parameter \<open>now\<close>). A handler is a function of the state
  that runs to its end with no other handler in between; the admission route is also
  given in two parts, split at its first \<open>await\<close>, for the interleaving of two requests.
\<close>

datatype worker_status = Offline | Available | Busy

record worker =
  w_id :: string
  w_username :: string
  w_password :: string
  w_status :: worker_status
  w_currentCustomer :: "string option"
  w_createdAt :: nat
  w_lastActive :: nat

datatype msg_status = Sent | Delivered | Read

record file_data =
  fd_filename :: string
  fd_originalname :: string
  fd_mimetype :: string
  fd_size :: nat
  fd_url :: string
  fd_duration :: nat

text \<open>The object \<open>messageData\<close> that \<open>send-message\<close> builds and broadcasts.\<close>

record message_data =
  md_id :: nat
  md_roomId :: string
  md_message :: string
  md_sender :: string
  md_senderId :: string
  md_messageType :: string
  md_fileData :: "file_data option"
  md_status :: msg_status
  md_timestamp :: nat

text \<open>A document of the Message collection; \<open>messageId\<close> is a String in the schema.\<close>

record message =
  m_messageId :: string
  m_roomId :: string
  m_message :: string
  m_sender :: string
  m_senderId :: string
  m_messageType :: string
  m_fileData :: "file_data option"
  m_status :: msg_status
  m_timestamp :: nat

datatype room_status = Active | Ended | Abandoned

record chat_room =
  r_roomId :: string
  r_customerId :: string
  r_workerId :: string
  r_workerName :: string
  r_status :: room_status
  r_createdAt :: nat
  r_endedAt :: "nat option"
  r_messageCount :: nat

datatype session_status = SConnected | SDisconnected | SEnded

record customer_session =
  cs_customerId :: string
  cs_roomId :: string
  cs_workerId :: string
  cs_workerName :: string
  cs_status :: session_status
  cs_joinedAt :: nat
  cs_lastActivity :: nat

text \<open>A value of the in-memory map \<open>activeCustomers\<close>.\<close>

record customer =
  c_id :: string
  c_roomId :: string
  c_workerId :: string
  c_workerName :: string
  c_joinedAt :: nat

text \<open>
  The properties the handlers set on their own socket object. Room membership belongs
  to the socket.io adapter and is part of the shared state below.
\<close>

record socket =
  sock_id :: string
  sock_workerId :: "string option"
  sock_customerId :: "string option"
  sock_roomId :: "string option"

record state =
  workers :: "worker list"
  messages :: "message list"
  chatRooms :: "chat_room list"
  customerSessions :: "customer_session list"
  workerSockets :: "(string \<times> string) list"
  activeCustomers :: "(string \<times> customer) list"
  connected :: "string list"
  joined :: "(string \<times> string) list"

datatype db_error = ValidationError | DuplicateKey

record assignment =
  a_roomId :: string
  a_workerId :: string
  a_workerName :: string

datatype join_response =
    Connected string string string string
  | BusyResponse string string
  | ServerError

datatype wire_event =
    WorkerStatusEv worker_status "string option" nat
  | CustomerConnected string string
  | NewMessage message_data
  | MessageStatusUpdate nat msg_status
  | MessageError string
  | UserTyping string bool
  | ChatEnded string
  | CustomerDisconnected string

datatype target = ToRoom string | ToRoomExcept string string | ToSocket string

text \<open>
  What a handler sends: an event emitted now, an event a \<open>setTimeout\<close> callback emits
  after a delay, or the HTTP response of the admission route.
\<close>

datatype out = Emit target wire_event | After nat target wire_event | Respond join_response

section \<open>Store operations (models.js)\<close>

text \<open>
  A query by \<open>_id\<close> casts the id it is given to an ObjectId. An id of the store is
  one already; a string that a client sent is accepted when it has 24 hexadecimal
  digits, and then denotes the id that prints as that string in lower case, the form
  in which the ids of the store are kept here. For any other string the query throws a
  \<open>CastError\<close> (also for a string of 12 characters, which drivers before bson 5
  took as the twelve bytes of an id).
\<close>

definition is_hex :: "char \<Rightarrow> bool" where
  "is_hex c = (c \<in> set ''0123456789abcdefABCDEF'')"

definition hex_lower :: "char \<Rightarrow> char" where
  "hex_lower c =
     (if c = CHR ''A'' then CHR ''a'' else if c = CHR ''B'' then CHR ''b''
      else if c = CHR ''C'' then CHR ''c'' else if c = CHR ''D'' then CHR ''d''
      else if c = CHR ''E'' then CHR ''e'' else if c = CHR ''F'' then CHR ''f'' else c)"

definition castObjectId :: "string \<Rightarrow> string option" where
  "castObjectId v = (if length v = 24 \<and> list_all is_hex v then Some (map hex_lower v) else None)"

text \<open>\<open>findOneAndUpdate\<close>: the first document that matches is updated where it stands.\<close>

fun update_first :: "('a \<Rightarrow> bool) \<Rightarrow> ('a \<Rightarrow> 'a) \<Rightarrow> 'a list \<Rightarrow> 'a list" where
  "update_first P f [] = []"
| "update_first P f (x # xs) = (if P x then f x # xs else x # update_first P f xs)"

text \<open>\<open>WorkerHelpers.findAvailable\<close>: \<open>Worker.find({ status: 'available' }).limit(10)\<close>, no sort.\<close>

definition findAvailable :: "worker list \<Rightarrow> worker list" where
  "findAvailable ws = take 10 (filter (\<lambda>w. w_status w = Available) ws)"

text \<open>
  \<open>WorkerHelpers.updateStatus(workerId, status, currentCustomer = null)\<close>. The default
  value replaces a missing third argument by \<open>null\<close> (here \<open>None\<close>), so the test
  \<open>currentCustomer !== undefined\<close> always holds and \<open>currentCustomer\<close> is always written.
  The id is an ObjectId here: a handler that passes a client's string casts it first and
  takes the \<open>CastError\<close> to its \<open>catch\<close>.
\<close>

definition updateStatus :: "string \<Rightarrow> worker_status \<Rightarrow> string option \<Rightarrow> nat \<Rightarrow> worker list \<Rightarrow> worker list" where
  "updateStatus workerId st currentCustomer now ws =
     update_first (\<lambda>w. w_id w = workerId)
       (\<lambda>w. w\<lparr>w_status := st, w_lastActive := now, w_currentCustomer := currentCustomer\<rparr>) ws"

text \<open>
  \<open>ChatRoomHelpers.create\<close>: a save, which the schema validates (the required strings
  are not empty) and the unique index on \<open>roomId\<close> guards.
\<close>

definition ChatRoom_create :: "string \<Rightarrow> string \<Rightarrow> worker \<Rightarrow> nat \<Rightarrow> chat_room list \<Rightarrow> db_error + chat_room list" where
  "ChatRoom_create roomId customerId wk now rs =
     (if roomId = [] \<or> customerId = [] \<or> w_username wk = [] then Inl ValidationError
      else if roomId \<in> set (map r_roomId rs) then Inl DuplicateKey
      else Inr (rs @ [\<lparr>r_roomId = roomId, r_customerId = customerId, r_workerId = w_id wk,
                       r_workerName = w_username wk, r_status = Active, r_createdAt = now,
                       r_endedAt = None, r_messageCount = 0\<rparr>]))"

text \<open>\<open>ChatRoomHelpers.end\<close>: status \<open>'ended'\<close> and the end time, whatever the status was.\<close>

definition ChatRoom_end :: "string \<Rightarrow> nat \<Rightarrow> chat_room list \<Rightarrow> chat_room list" where
  "ChatRoom_end roomId now rs =
     update_first (\<lambda>r. r_roomId r = roomId) (\<lambda>r. r\<lparr>r_status := Ended, r_endedAt := Some now\<rparr>) rs"

text \<open>\<open>new CustomerSession({...}).save()\<close>, with the unique index on \<open>customerId\<close>.\<close>

definition CustomerSession_save :: "customer_session \<Rightarrow> customer_session list \<Rightarrow> db_error + customer_session list" where
  "CustomerSession_save cs css =
     (if cs_customerId cs = [] \<or> cs_roomId cs = [] \<or> cs_workerName cs = [] then Inl ValidationError
      else if cs_customerId cs \<in> set (map cs_customerId css) then Inl DuplicateKey
      else Inr (css @ [cs]))"

text \<open>The decimal string of a number, as a template literal or a cast to String gives it.\<close>

function show_nat :: "nat \<Rightarrow> string" where
  "show_nat n = (if n < 10 then [''0123456789'' ! n]
                 else show_nat (n div 10) @ [''0123456789'' ! (n mod 10)])"
  by pat_completeness auto
termination
  by (relation "measure id") auto

declare show_nat.simps [simp del]

definition sender_enum :: "string list" where
  "sender_enum = [''customer'', ''worker'', ''system'']"

definition messageType_enum :: "string list" where
  "messageType_enum = [''text'', ''image'', ''file'', ''voice'']"

text \<open>
  \<open>MessageHelpers.saveMessage\<close>: the document is built from \<open>messageData\<close> (an empty
  \<open>messageType\<close> falls back to \<open>'text'\<close>), validated against the schema and saved under
  the unique index on \<open>messageId\<close>.
\<close>

definition message_of :: "message_data \<Rightarrow> message" where
  "message_of md =
     \<lparr>m_messageId = show_nat (md_id md), m_roomId = md_roomId md, m_message = md_message md,
      m_sender = md_sender md, m_senderId = md_senderId md,
      m_messageType = (if md_messageType md = [] then ''text'' else md_messageType md),
      m_fileData = md_fileData md, m_status = md_status md, m_timestamp = md_timestamp md\<rparr>"

definition saveMessage :: "message_data \<Rightarrow> message list \<Rightarrow> db_error + message list" where
  "saveMessage md ms =
     (let doc = message_of md in
      if m_messageId doc = [] \<or> m_roomId doc = [] \<or> m_message doc = [] \<or> m_senderId doc = []
         \<or> m_sender doc \<notin> set sender_enum \<or> m_messageType doc \<notin> set messageType_enum
      then Inl ValidationError
      else if m_messageId doc \<in> set (map m_messageId ms) then Inl DuplicateKey
      else Inr (ms @ [doc]))"

text \<open>\<open>MessageHelpers.updateStatus(messageId, status)\<close>: the status is overwritten.\<close>

definition Message_updateStatus :: "string \<Rightarrow> msg_status \<Rightarrow> message list \<Rightarrow> message list" where
  "Message_updateStatus messageId st ms =
     update_first (\<lambda>m. m_messageId m = messageId) (\<lambda>m. m\<lparr>m_status := st\<rparr>) ms"

section \<open>Admission (POST /api/customer/join)\<close>

definition findAvailableWorker :: "worker list \<Rightarrow> worker option" where
  "findAvailableWorker ws = (case findAvailable ws of [] \<Rightarrow> None | w # _ \<Rightarrow> Some w)"

text \<open>
  \<open>assignCustomerToWorker\<close>: three store writes in a row; an error of one of them is
  rethrown and leaves the earlier writes in place.
\<close>

definition assignCustomerToWorker :: "string \<Rightarrow> worker \<Rightarrow> nat \<Rightarrow> state \<Rightarrow> state \<times> (db_error + assignment)" where
  "assignCustomerToWorker customerId wk now s =
     (let roomId = ''room_'' @ customerId @ ''_'' @ w_id wk;
          s1 = s\<lparr>workers := updateStatus (w_id wk) Busy (Some customerId) now (workers s)\<rparr>
      in case ChatRoom_create roomId customerId wk now (chatRooms s1) of
           Inl e \<Rightarrow> (s1, Inl e)
         | Inr rs \<Rightarrow>
             (let s2 = s1\<lparr>chatRooms := rs\<rparr>
              in case CustomerSession_save
                        \<lparr>cs_customerId = customerId, cs_roomId = roomId, cs_workerId = w_id wk,
                         cs_workerName = w_username wk, cs_status = SConnected,
                         cs_joinedAt = now, cs_lastActivity = now\<rparr> (customerSessions s2) of
                   Inl e \<Rightarrow> (s2, Inl e)
                 | Inr css \<Rightarrow>
                     (s2\<lparr>customerSessions := css\<rparr>,
                      Inr \<lparr>a_roomId = roomId, a_workerId = w_id wk, a_workerName = w_username wk\<rparr>)))"

definition busy_message :: string where
  "busy_message = ''All our agents are currently busy. Please leave your contact info for a callback.''"

text \<open>
  The identifier the route generates: \<open>'customer_' + Date.now() + '_' + r\<close>, where \<open>r\<close> is
  the string \<open>Math.random().toString(36).substr(2, 9)\<close>, an input of the model.
\<close>

definition new_customerId :: "nat \<Rightarrow> string \<Rightarrow> string" where
  "new_customerId now rnd = ''customer_'' @ show_nat now @ ''_'' @ rnd"

text \<open>
  The route suspends at \<open>await findAvailableWorker()\<close>; \<open>join_continue\<close> is what runs
  after that await, with the worker document the query returned.
\<close>

definition join_continue :: "string \<Rightarrow> worker option \<Rightarrow> nat \<Rightarrow> state \<Rightarrow> state \<times> join_response" where
  "join_continue customerId availableWorker now s =
     (case availableWorker of
        Some wk \<Rightarrow>
          (case assignCustomerToWorker customerId wk now s of
             (s', Inl e) \<Rightarrow> (s', ServerError)
           | (s', Inr a) \<Rightarrow>
               (s'\<lparr>activeCustomers :=
                     AList.update customerId
                       \<lparr>c_id = customerId, c_roomId = a_roomId a, c_workerId = a_workerId a,
                        c_workerName = a_workerName a, c_joinedAt = now\<rparr> (activeCustomers s')\<rparr>,
                Connected customerId (a_roomId a) (a_workerId a) (a_workerName a)))
      | None \<Rightarrow> (s, BusyResponse customerId busy_message))"

text \<open>One admission that no other handler interleaves with.\<close>

definition post_customer_join :: "nat \<Rightarrow> string \<Rightarrow> state \<Rightarrow> state \<times> join_response" where
  "post_customer_join now rnd s =
     join_continue (new_customerId now rnd) (findAvailableWorker (workers s)) now s"

section \<open>Socket handlers (server.js)\<close>

text \<open>\<open>socket.join(room)\<close>: membership is a set of (socket, room) pairs.\<close>

definition socket_join :: "string \<Rightarrow> string \<Rightarrow> state \<Rightarrow> state" where
  "socket_join sid room s = s\<lparr>joined := List.insert (sid, room) (joined s)\<rparr>"

text \<open>A property of a socket is truthy when it was set to a non-empty string.\<close>

definition truthy :: "string option \<Rightarrow> bool" where
  "truthy v = (case v of None \<Rightarrow> False | Some x \<Rightarrow> x \<noteq> [])"

text \<open>
  \<open>worker-join\<close>: the socket joins the worker's room and is recorded in
  \<open>workerSockets\<close>, both under the id as the client sent it; then the worker is set to
  \<open>'available'\<close> by the two-argument call \<open>updateStatus(workerId, 'available')\<close> and
  the stored status is sent back. When the id does not cast, the update throws and the
  \<open>catch\<close> only logs: no worker is written and no status is sent.
\<close>

definition on_worker_join :: "nat \<Rightarrow> string \<Rightarrow> socket \<Rightarrow> state \<Rightarrow> socket \<times> state \<times> out list" where
  "on_worker_join now workerId sock s =
     (let s1 = socket_join (sock_id sock) (''worker_'' @ workerId) s;
          s2 = s1\<lparr>workerSockets := AList.update workerId (sock_id sock) (workerSockets s1)\<rparr>
      in case castObjectId workerId of
           None \<Rightarrow> (sock\<lparr>sock_workerId := Some workerId\<rparr>, s2, [])
         | Some oid \<Rightarrow>
             (let s3 = s2\<lparr>workers := updateStatus oid Available None now (workers s2)\<rparr>;
                  found = List.find (\<lambda>w. w_id w = oid) (workers s3)
              in (sock\<lparr>sock_workerId := Some workerId\<rparr>, s3,
                  [Emit (ToRoom (''worker_'' @ workerId))
                     (WorkerStatusEv (case found of Some w \<Rightarrow> w_status w | None \<Rightarrow> Offline)
                                     (case found of Some w \<Rightarrow> w_currentCustomer w | None \<Rightarrow> None)
                                     (length (activeCustomers s3)))])))"

text \<open>
  \<open>customer-join\<close>: the socket joins the room the client names; when the customer is
  in \<open>activeCustomers\<close>, its worker's socket joins too and the worker is notified.
\<close>

definition on_customer_join :: "string \<Rightarrow> string \<Rightarrow> socket \<Rightarrow> state \<Rightarrow> socket \<times> state \<times> out list" where
  "on_customer_join customerId roomId sock s =
     (let s1 = socket_join (sock_id sock) roomId s;
          sock' = sock\<lparr>sock_customerId := Some customerId, sock_roomId := Some roomId\<rparr>
      in case map_of (activeCustomers s1) customerId of
           None \<Rightarrow> (sock', s1, [])
         | Some c \<Rightarrow>
             (let s2 = (case map_of (workerSockets s1) (c_workerId c) of
                          None \<Rightarrow> s1
                        | Some wsid \<Rightarrow>
                            if wsid \<noteq> [] \<and> wsid \<in> set (connected s1)
                            then socket_join wsid roomId s1 else s1)
              in (sock', s2,
                  [Emit (ToRoom (''worker_'' @ c_workerId c)) (CustomerConnected customerId roomId)])))"

text \<open>The payload of \<open>send-message\<close>.\<close>

record send_data =
  sd_roomId :: string
  sd_message :: string
  sd_sender :: string
  sd_senderId :: string
  sd_messageType :: string
  sd_fileData :: "file_data option"

definition make_messageData :: "nat \<Rightarrow> send_data \<Rightarrow> message_data" where
  "make_messageData now d =
     \<lparr>md_id = now, md_roomId = sd_roomId d, md_message = sd_message d, md_sender = sd_sender d,
      md_senderId = sd_senderId d,
      md_messageType = (if sd_messageType d = [] then ''text'' else sd_messageType d),
      md_fileData = sd_fileData d, md_status = Sent, md_timestamp = now\<rparr>"

text \<open>
  \<open>send-message\<close>: the message gets \<open>id: Date.now()\<close>, is saved, and only then
  broadcast to the room; 100 ms later a timer broadcasts \<open>'delivered'\<close> (it changes the
  local object only, the stored document keeps \<open>'sent'\<close>). When the save throws, the
  sender's socket gets \<open>message-error\<close> and nothing else happens.
\<close>

definition on_send_message :: "nat \<Rightarrow> send_data \<Rightarrow> socket \<Rightarrow> state \<Rightarrow> socket \<times> state \<times> out list" where
  "on_send_message now d sock s =
     (let messageData = make_messageData now d
      in case saveMessage messageData (messages s) of
           Inr ms \<Rightarrow>
             (sock, s\<lparr>messages := ms\<rparr>,
              [Emit (ToRoom (sd_roomId d)) (NewMessage messageData),
               After 100 (ToRoom (sd_roomId d)) (MessageStatusUpdate (md_id messageData) Delivered)])
         | Inl e \<Rightarrow> (sock, s, [Emit (ToSocket (sock_id sock)) (MessageError ''Failed to save message'')]))"

definition on_typing :: "bool \<Rightarrow> string \<Rightarrow> string \<Rightarrow> socket \<Rightarrow> state \<Rightarrow> socket \<times> state \<times> out list" where
  "on_typing typing roomId sender sock s =
     (if roomId = [] \<or> sender = [] then (sock, s, [])
      else (sock, s, [Emit (ToRoomExcept roomId (sock_id sock)) (UserTyping sender typing)]))"

text \<open>
  \<open>message-read\<close>: a missing room or message id is dropped; otherwise the status is
  written and the update broadcast, whatever the stored status was.
\<close>

definition on_message_read :: "string \<Rightarrow> nat \<Rightarrow> socket \<Rightarrow> state \<Rightarrow> socket \<times> state \<times> out list" where
  "on_message_read roomId messageId sock s =
     (if roomId = [] \<or> messageId = 0 then (sock, s, [])
      else (sock, s\<lparr>messages := Message_updateStatus (show_nat messageId) Read (messages s)\<rparr>,
            [Emit (ToRoom roomId) (MessageStatusUpdate messageId Read)]))"

text \<open>\<open>messages-read\<close>: \<open>Message.updateMany\<close> over the ids, one broadcast for each.\<close>

definition on_messages_read :: "string \<Rightarrow> nat list \<Rightarrow> socket \<Rightarrow> state \<Rightarrow> socket \<times> state \<times> out list" where
  "on_messages_read roomId messageIds sock s =
     (sock,
      s\<lparr>messages := map (\<lambda>m. if m_messageId m \<in> set (map show_nat messageIds)
                               then m\<lparr>m_status := Read\<rparr> else m) (messages s)\<rparr>,
      map (\<lambda>i. Emit (ToRoom roomId) (MessageStatusUpdate i Read)) messageIds)"

definition chat_ended_message :: string where
  "chat_ended_message = ''Chat session has been ended by the agent. Thank you!''"

text \<open>
  \<open>end-chat\<close>: the worker and the room are the ones the client names; no status is
  read. The worker's update comes first: when the id does not cast it throws, and the
  \<open>catch\<close> skips the room's end, the customer's removal and the broadcast.
\<close>

definition on_end_chat :: "nat \<Rightarrow> string \<Rightarrow> string \<Rightarrow> socket \<Rightarrow> state \<Rightarrow> socket \<times> state \<times> out list" where
  "on_end_chat now roomId workerId sock s =
     (case castObjectId workerId of
        None \<Rightarrow> (sock, s, [])
      | Some oid \<Rightarrow>
          (let s1 = s\<lparr>workers := updateStatus oid Available None now (workers s)\<rparr>;
               s2 = s1\<lparr>chatRooms := ChatRoom_end roomId now (chatRooms s1)\<rparr>;
               s3 = (case List.find (\<lambda>c. c_roomId c = roomId) (map snd (activeCustomers s2)) of
                       Some c \<Rightarrow> s2\<lparr>activeCustomers := AList.delete (c_id c) (activeCustomers s2)\<rparr>
                     | None \<Rightarrow> s2)
           in (sock, s3, [Emit (ToRoom roomId) (ChatEnded chat_ended_message)])))"

text \<open>
  \<open>disconnect\<close>: socket.io has removed the socket from its registry and from every
  room when the handler runs. A worker's socket sets the worker offline and leaves
  \<open>workerSockets\<close>; when its id does not cast, the update throws and the \<open>catch\<close>
  skips both. Then a customer's socket that is still in \<open>activeCustomers\<close> notifies the
  worker, frees it (by the id the admission stored) and ends the room with
  \<open>ChatRoomHelpers.end\<close>.
\<close>

definition on_disconnect :: "nat \<Rightarrow> socket \<Rightarrow> state \<Rightarrow> socket \<times> state \<times> out list" where
  "on_disconnect now sock s =
     (let s0 = s\<lparr>connected := removeAll (sock_id sock) (connected s),
                 joined := filter (\<lambda>p. fst p \<noteq> sock_id sock) (joined s)\<rparr>;
          s1 = (if truthy (sock_workerId sock)
                then (case castObjectId (the (sock_workerId sock)) of
                        None \<Rightarrow> s0
                      | Some oid \<Rightarrow>
                          s0\<lparr>workers := updateStatus oid Offline None now (workers s0),
                             workerSockets := AList.delete (the (sock_workerId sock)) (workerSockets s0)\<rparr>)
                else s0)
      in if truthy (sock_customerId sock) \<and> truthy (sock_roomId sock)
         then (case map_of (activeCustomers s1) (the (sock_customerId sock)) of
                 Some c \<Rightarrow>
                   (sock,
                    s1\<lparr>workers := updateStatus (c_workerId c) Available None now (workers s1),
                       chatRooms := ChatRoom_end (the (sock_roomId sock)) now (chatRooms s1),
                       activeCustomers := AList.delete (the (sock_customerId sock)) (activeCustomers s1)\<rparr>,
                    [Emit (ToRoom (''worker_'' @ c_workerId c))
                       (CustomerDisconnected (the (sock_customerId sock)))])
               | None \<Rightarrow> (sock, s1, []))
         else (sock, s1, []))"

text \<open>The events of the broker and their dispatch.\<close>

datatype event =
    PostCustomerJoin nat string
  | WorkerJoin nat string
  | CustomerJoin string string
  | SendMessage nat send_data
  | TypingStart string string
  | TypingStop string string
  | MessageRead string nat
  | MessagesRead string "nat list"
  | EndChat nat string string
  | Disconnect nat

fun step :: "event \<Rightarrow> socket \<Rightarrow> state \<Rightarrow> socket \<times> state \<times> out list" where
  "step (PostCustomerJoin now rnd) sock s =
     (case post_customer_join now rnd s of (s', r) \<Rightarrow> (sock, s', [Respond r]))"
| "step (WorkerJoin now workerId) sock s = on_worker_join now workerId sock s"
| "step (CustomerJoin customerId roomId) sock s = on_customer_join customerId roomId sock s"
| "step (SendMessage now d) sock s = on_send_message now d sock s"
| "step (TypingStart roomId sender) sock s = on_typing True roomId sender sock s"
| "step (TypingStop roomId sender) sock s = on_typing False roomId sender sock s"
| "step (MessageRead roomId messageId) sock s = on_message_read roomId messageId sock s"
| "step (MessagesRead roomId messageIds) sock s = on_messages_read roomId messageIds sock s"
| "step (EndChat now roomId workerId) sock s = on_end_chat now roomId workerId sock s"
| "step (Disconnect now) sock s = on_disconnect now sock s"

section \<open>Example states\<close>

definition demo_worker :: "string \<Rightarrow> string \<Rightarrow> worker_status \<Rightarrow> string option \<Rightarrow> nat \<Rightarrow> worker" where
  "demo_worker i name st cc la =
     \<lparr>w_id = i, w_username = name, w_password = ''$2b$10$hash'', w_status = st,
      w_currentCustomer = cc, w_createdAt = 0, w_lastActive = la\<rparr>"

definition demo_state :: "worker list \<Rightarrow> state" where
  "demo_state ws =
     \<lparr>workers = ws, messages = [], chatRooms = [], customerSessions = [],
      workerSockets = [], activeCustomers = [], connected = [], joined = []\<rparr>"

definition demo_socket :: "string \<Rightarrow> socket" where
  "demo_socket sid = \<lparr>sock_id = sid, sock_workerId = None, sock_customerId = None, sock_roomId = None\<rparr>"

definition all_busy :: state where
  "all_busy = demo_state [demo_worker ''64f1a2b3c4d5e6f708192a3b'' ''alice'' Busy (Some ''customer_1_a'') 100,
                          demo_worker ''64f1a2b3c4d5e6f708192a3c'' ''bob'' Offline None 50]"

definition two_available :: state where
  "two_available = demo_state [demo_worker ''64f1a2b3c4d5e6f708192a3b'' ''alice'' Available None 100,
                               demo_worker ''64f1a2b3c4d5e6f708192a3c'' ''bob'' Available None 50]"

definition one_available :: state where
  "one_available = demo_state [demo_worker ''64f1a2b3c4d5e6f708192a3b'' ''alice'' Available None 100]"


definition demo_room :: "room_status \<Rightarrow> nat option \<Rightarrow> chat_room" where
  "demo_room st ended =
     \<lparr>r_roomId = ''room_customer_1000_aaa_64f1a2b3c4d5e6f708192a3b'', r_customerId = ''customer_1000_aaa'',
      r_workerId = ''64f1a2b3c4d5e6f708192a3b'', r_workerName = ''alice'', r_status = st, r_createdAt = 1000,
      r_endedAt = ended, r_messageCount = 0\<rparr>"

definition in_session :: state where
  "in_session =
     \<lparr>workers = [demo_worker ''64f1a2b3c4d5e6f708192a3b'' ''alice'' Busy (Some ''customer_1000_aaa'') 1000],
      messages = [],
      chatRooms = [demo_room Active None],
      customerSessions =
        [\<lparr>cs_customerId = ''customer_1000_aaa'', cs_roomId = ''room_customer_1000_aaa_64f1a2b3c4d5e6f708192a3b'',
          cs_workerId = ''64f1a2b3c4d5e6f708192a3b'', cs_workerName = ''alice'', cs_status = SConnected,
          cs_joinedAt = 1000, cs_lastActivity = 1000\<rparr>],
      workerSockets = [(''64f1a2b3c4d5e6f708192a3b'', ''sockW'')],
      activeCustomers =
        [(''customer_1000_aaa'',
          \<lparr>c_id = ''customer_1000_aaa'', c_roomId = ''room_customer_1000_aaa_64f1a2b3c4d5e6f708192a3b'',
           c_workerId = ''64f1a2b3c4d5e6f708192a3b'', c_workerName = ''alice'', c_joinedAt = 1000\<rparr>)],
      connected = [''sockW'', ''sockC''],
      joined = [(''sockW'', ''room_customer_1000_aaa_64f1a2b3c4d5e6f708192a3b''), (''sockC'', ''room_customer_1000_aaa_64f1a2b3c4d5e6f708192a3b''),
                (''sockW'', ''worker_64f1a2b3c4d5e6f708192a3b'')]\<rparr>"

definition offline_pool :: state where
  "offline_pool = (demo_state [demo_worker ''64f1a2b3c4d5e6f708192a3b'' ''alice'' Offline None 0])\<lparr>connected := [''sockW'', ''sockC'']\<rparr>"

definition customer_socket :: socket where
  "customer_socket = \<lparr>sock_id = ''sockC'', sock_workerId = None,
      sock_customerId = Some ''customer_1000_aaa'', sock_roomId = Some ''room_customer_1000_aaa_64f1a2b3c4d5e6f708192a3b''\<rparr>"

definition worker_socket :: socket where
  "worker_socket = \<lparr>sock_id = ''sockW'', sock_workerId = Some ''64f1a2b3c4d5e6f708192a3b'',
      sock_customerId = None, sock_roomId = None\<rparr>"


definition race_first :: "state \<times> join_response" where
  "race_first = join_continue (new_customerId 1000 ''aaa'')
                  (findAvailableWorker (workers one_available)) 1000 one_available"

definition race_second :: "state \<times> join_response" where
  "race_second = join_continue (new_customerId 1000 ''bbb'')
                   (findAvailableWorker (workers one_available)) 1001 (fst race_first)"

definition hello :: send_data where
  "hello = \<lparr>sd_roomId = ''room_customer_1000_aaa_64f1a2b3c4d5e6f708192a3b'', sd_message = ''hi'', sd_sender = ''customer'',
            sd_senderId = ''customer_1000_aaa'', sd_messageType = ''text'', sd_fileData = None\<rparr>"

definition one_message :: state where
  "one_message = in_session\<lparr>messages := [message_of (make_messageData 1000 hello)]\<rparr>"

definition ended_session :: state where
  "ended_session = fst (snd (on_end_chat 5000 ''room_customer_1000_aaa_64f1a2b3c4d5e6f708192a3b'' ''64f1a2b3c4d5e6f708192a3b'' worker_socket in_session))"


definition read_message :: state where
  "read_message = fst (snd (on_message_read ''room_customer_1000_aaa_64f1a2b3c4d5e6f708192a3b'' 1000 worker_socket one_message))"

section \<open>Predicates of the properties\<close>

text \<open>
  The order of the delivery statuses, and what it means for a message collection not to
  regress: every document is still at its place, with its id, at the same or a later
  status.
\<close>

definition status_rank :: "msg_status \<Rightarrow> nat" where
  "status_rank st = (case st of Sent \<Rightarrow> 0 | Delivered \<Rightarrow> 1 | Read \<Rightarrow> 2)"

definition no_regress :: "message list \<Rightarrow> message list \<Rightarrow> bool" where
  "no_regress ms ms' =
     (length ms \<le> length ms' \<and>
      list_all2 (\<lambda>m m'. m_messageId m' = m_messageId m \<and> status_rank (m_status m) \<le> status_rank (m_status m'))
        ms (take (length ms) ms'))"


text \<open>What the Message schema accepts: the required strings and the two enums.\<close>

definition Message_valid :: "message \<Rightarrow> bool" where
  "Message_valid doc =
     (m_messageId doc \<noteq> [] \<and> m_roomId doc \<noteq> [] \<and> m_message doc \<noteq> [] \<and> m_senderId doc \<noteq> [] \<and>
      m_sender doc \<in> set sender_enum \<and> m_messageType doc \<in> set messageType_enum)"

text \<open>
  The invariant on workers and sessions: worker ids and room ids are unique (the store's
  \<open>_id\<close> and the unique index on \<open>roomId\<close>), a busy worker is referenced by exactly
  one active room and any other worker by none, and an active room references a worker
  of the store.
\<close>

definition active_sessions :: "chat_room list \<Rightarrow> string \<Rightarrow> nat" where
  "active_sessions rs wid = length (filter (\<lambda>r. r_status r = Active \<and> r_workerId r = wid) rs)"

definition broker_inv :: "worker list \<Rightarrow> chat_room list \<Rightarrow> bool" where
  "broker_inv ws rs =
     (distinct (map w_id ws) \<and> distinct (map r_roomId rs) \<and>
      list_all (\<lambda>w. active_sessions rs (w_id w) = (if w_status w = Busy then 1 else 0)) ws \<and>
      list_all (\<lambda>r. r_status r = Active \<longrightarrow> r_workerId r \<in> set (map w_id ws)) rs)"

definition busy_iff_session :: "state \<Rightarrow> bool" where
  "busy_iff_session s = broker_inv (workers s) (chatRooms s)"

text \<open>
  What the invariant needs of an event. \<open>names_active_room\<close>: the room of that id is
  active and is the named worker's. \<open>release_ok\<close>, for the two handlers that free a
  worker and end a room: the room is the worker's active room, or the room is not
  active and the worker is not busy. \<open>well_addressed\<close>: an admission creates its room;
  a worker that joins is not busy; \<open>end-chat\<close> names a worker and a room that go
  together; a worker whose socket disconnects is not busy, and a customer whose socket
  disconnects has joined the room that goes with its worker. An id that does not cast
  needs nothing, and no other event does.
\<close>

definition worker_busy :: "worker list \<Rightarrow> string \<Rightarrow> bool" where
  "worker_busy ws wid = (map_option w_status (List.find (\<lambda>w. w_id w = wid) ws) = Some Busy)"

definition room_active :: "chat_room list \<Rightarrow> string \<Rightarrow> bool" where
  "room_active rs rid = (map_option r_status (List.find (\<lambda>r. r_roomId r = rid) rs) = Some Active)"

definition names_active_room :: "string \<Rightarrow> string \<Rightarrow> chat_room list \<Rightarrow> bool" where
  "names_active_room roomId workerId rs =
     (map_option (\<lambda>r. (r_status r, r_workerId r)) (List.find (\<lambda>r. r_roomId r = roomId) rs)
        = Some (Active, workerId))"

definition release_ok :: "string \<Rightarrow> string \<Rightarrow> worker list \<Rightarrow> chat_room list \<Rightarrow> bool" where
  "release_ok roomId workerId ws rs =
     (names_active_room roomId workerId rs \<or> (\<not> room_active rs roomId \<and> \<not> worker_busy ws workerId))"

definition room_created :: "nat \<Rightarrow> string \<Rightarrow> state \<Rightarrow> bool" where
  "room_created now rnd s =
     (case findAvailableWorker (workers s) of
        None \<Rightarrow> True
      | Some wk \<Rightarrow>
          (case ChatRoom_create (''room_'' @ new_customerId now rnd @ ''_'' @ w_id wk)
                  (new_customerId now rnd) wk now (chatRooms s) of
             Inl e \<Rightarrow> False
           | Inr rs \<Rightarrow> True))"

fun well_addressed :: "event \<Rightarrow> socket \<Rightarrow> state \<Rightarrow> bool" where
  "well_addressed (PostCustomerJoin now rnd) sock s = room_created now rnd s"
| "well_addressed (WorkerJoin now workerId) sock s =
     (case castObjectId workerId of
        None \<Rightarrow> True
      | Some oid \<Rightarrow> \<not> worker_busy (workers s) oid)"
| "well_addressed (EndChat now roomId workerId) sock s =
     (case castObjectId workerId of
        None \<Rightarrow> True
      | Some oid \<Rightarrow> release_ok roomId oid (workers s) (chatRooms s))"
| "well_addressed (Disconnect now) sock s =
     ((if truthy (sock_workerId sock)
       then (case castObjectId (the (sock_workerId sock)) of
               None \<Rightarrow> True
             | Some oid \<Rightarrow> \<not> worker_busy (workers s) oid)
       else True) \<and>
      (if truthy (sock_customerId sock) \<and> truthy (sock_roomId sock)
       then (case map_of (activeCustomers s) (the (sock_customerId sock)) of
               None \<Rightarrow> True
             | Some c \<Rightarrow> release_ok (the (sock_roomId sock)) (c_workerId c) (workers s) (chatRooms s))
       else True))"
| "well_addressed e sock s = True"

text \<open>The equations that evaluate the model on the example states.\<close>

lemma cast_example_ids:
  "castObjectId ''64f1a2b3c4d5e6f708192a3b'' = Some ''64f1a2b3c4d5e6f708192a3b''"
  "castObjectId ''64f1a2b3c4d5e6f708192a3c'' = Some ''64f1a2b3c4d5e6f708192a3c''"
  by (simp_all add: castObjectId_def is_hex_def hex_lower_def)

lemmas eval_defs =
  one_available_def offline_pool_def in_session_def
  one_message_def hello_def customer_socket_def worker_socket_def
  demo_socket_def demo_room_def demo_state_def demo_worker_def
  join_continue_def post_customer_join_def findAvailableWorker_def findAvailable_def
  assignCustomerToWorker_def updateStatus_def ChatRoom_create_def ChatRoom_end_def
  CustomerSession_save_def new_customerId_def busy_message_def
  on_worker_join_def on_customer_join_def on_end_chat_def on_send_message_def on_disconnect_def
  on_message_read_def on_messages_read_def on_typing_def Message_updateStatus_def
  saveMessage_def message_of_def make_messageData_def sender_enum_def messageType_enum_def
  socket_join_def truthy_def Let_def show_nat.simps AList.delete_eq cast_example_ids

text \<open>The session state above is what a worker join, an admission and a customer join produce.\<close>

lemma in_session_reached:
  "fst (snd (step (CustomerJoin ''customer_1000_aaa'' ''room_customer_1000_aaa_64f1a2b3c4d5e6f708192a3b'') (demo_socket ''sockC'')
     (fst (snd (step (PostCustomerJoin 1000 ''aaa'') (demo_socket ''http'')
        (fst (snd (step (WorkerJoin 1000 ''64f1a2b3c4d5e6f708192a3b'') (demo_socket ''sockW'') offline_pool)))))))) = in_session"
  by (simp add: eval_defs)

section \<open>Admission: selection and the busy response\<close>

lemma find_filter_hd:
  "List.find P xs = (case filter P xs of [] \<Rightarrow> None | x # _ \<Rightarrow> Some x)"
  by (induction xs) auto

lemma findAvailableWorker_find:
  "findAvailableWorker ws = List.find (\<lambda>w. w_status w = Available) ws"
  by (simp add: findAvailableWorker_def findAvailable_def find_filter_hd split: list.splits)

lemma findAvailableWorker_None:
  "(\<forall>w\<in>set ws. w_status w \<noteq> Available) \<Longrightarrow> findAvailableWorker ws = None"
  by (simp add: findAvailableWorker_find find_None_iff)

text \<open>
  Claim C10. When no worker is available, the admission route answers
  \<open>{status: 'busy'}\<close> with the customer id it has just generated and leaves the whole
  state as it was: no worker, chat room or customer session is written and
  \<open>activeCustomers\<close> is unchanged.
\<close>

theorem admission_busy_no_mutation:
  assumes "\<forall>w\<in>set (workers s). w_status w \<noteq> Available"
  shows "post_customer_join now rnd s = (s, BusyResponse (new_customerId now rnd) busy_message)"
  using findAvailableWorker_None [OF assms]
  by (simp add: post_customer_join_def join_continue_def)

text \<open>The theorem above on a pool of one busy and one offline worker.\<close>

theorem admission_busy_no_mutation_witness:
  "map w_status (workers all_busy) = [Busy, Offline] \<and>
   post_customer_join 1700000000000 ''k3j9x2m1q'' all_busy
     = (all_busy, BusyResponse (new_customerId 1700000000000 ''k3j9x2m1q'') busy_message)"
proof -
  have h: "\<forall>w\<in>set (workers all_busy). w_status w \<noteq> Available"
    by (simp add: all_busy_def demo_state_def demo_worker_def)
  have m: "map w_status (workers all_busy) = [Busy, Offline]"
    by (simp add: all_busy_def demo_state_def demo_worker_def)
  show ?thesis using m admission_busy_no_mutation [OF h] by simp
qed

lemma assign_response:
  "snd (assignCustomerToWorker cid wk now s) = Inr a \<Longrightarrow>
   a = \<lparr>a_roomId = ''room_'' @ cid @ ''_'' @ w_id wk, a_workerId = w_id wk, a_workerName = w_username wk\<rparr>"
  by (auto simp: assignCustomerToWorker_def Let_def split: sum.splits)

text \<open>
  Claim C6, as amended. The admission selects the first available worker in the order
  the store returns the workers (the query has no sort), whatever the last-active
  timestamps are; when the assignment does not fail, the \<open>connected\<close> response carries
  that worker's id and name.
\<close>

theorem admission_selects_first_available:
  assumes "List.find (\<lambda>w. w_status w = Available) (workers s) = Some wk"
  shows "findAvailableWorker (workers s) = Some wk \<and>
         (snd (post_customer_join now rnd s) = ServerError \<or>
          snd (post_customer_join now rnd s)
            = Connected (new_customerId now rnd)
                (''room_'' @ new_customerId now rnd @ ''_'' @ w_id wk) (w_id wk) (w_username wk))"
proof -
  have sel: "findAvailableWorker (workers s) = Some wk"
    using assms by (simp add: findAvailableWorker_find)
  obtain s' r where a: "assignCustomerToWorker (new_customerId now rnd) wk now s = (s', r)"
    by (cases "assignCustomerToWorker (new_customerId now rnd) wk now s")
  show ?thesis
  proof (cases r)
    case (Inl e)
    with sel a show ?thesis by (simp add: post_customer_join_def join_continue_def)
  next
    case (Inr x)
    with a have "snd (assignCustomerToWorker (new_customerId now rnd) wk now s) = Inr x" by simp
    from assign_response [OF this] sel a Inr show ?thesis
      by (simp add: post_customer_join_def join_continue_def)
  qed
qed

text \<open>The theorem above on a pool of two available workers.\<close>

theorem admission_selects_first_available_witness:
  "List.find (\<lambda>w. w_status w = Available) (workers two_available)
     = Some (demo_worker ''64f1a2b3c4d5e6f708192a3b'' ''alice'' Available None 100) \<and>
   snd (post_customer_join 1000 ''abc'' two_available)
     = Connected (new_customerId 1000 ''abc'') (''room_'' @ new_customerId 1000 ''abc'' @ ''_64f1a2b3c4d5e6f708192a3b'') ''64f1a2b3c4d5e6f708192a3b'' ''alice''"
proof -
  have h: "List.find (\<lambda>w. w_status w = Available) (workers two_available)
     = Some (demo_worker ''64f1a2b3c4d5e6f708192a3b'' ''alice'' Available None 100)"
    by (simp add: two_available_def demo_state_def demo_worker_def)
  have n: "snd (post_customer_join 1000 ''abc'' two_available) \<noteq> ServerError"
    by (simp add: eval_defs two_available_def)
  show ?thesis
    using h n admission_selects_first_available [OF h, of 1000 "''abc''"]
    by (simp add: demo_worker_def)
qed

text \<open>
  With two available workers the admission returns the first one, although
  the second has the lower last-active timestamp.
\<close>

theorem least_recently_active_counterexample:
  "snd (post_customer_join 1000 ''abc'' two_available)
     = Connected ''customer_1000_abc'' ''room_customer_1000_abc_64f1a2b3c4d5e6f708192a3b'' ''64f1a2b3c4d5e6f708192a3b'' ''alice'' \<and>
   workers two_available = [demo_worker ''64f1a2b3c4d5e6f708192a3b'' ''alice'' Available None 100,
                            demo_worker ''64f1a2b3c4d5e6f708192a3c'' ''bob'' Available None 50] \<and>
   w_lastActive (demo_worker ''64f1a2b3c4d5e6f708192a3c'' ''bob'' Available None 50)
     < w_lastActive (demo_worker ''64f1a2b3c4d5e6f708192a3b'' ''alice'' Available None 100)"
  by (simp add: eval_defs two_available_def)

section \<open>Admission: interleaved requests\<close>

text \<open>
  Claim C1. Two admissions against a pool with exactly one available worker: each
  runs its selection before the other has written, then both continue. Both answer
  \<open>connected\<close> with the same worker; two active rooms reference it and its
  \<open>currentCustomer\<close> is the second customer. Selection and reservation are two steps
  with an await between them.
\<close>

theorem admission_race_double_assignment:
  "map w_status (workers one_available) = [Available] \<and>
   snd race_first = Connected ''customer_1000_aaa'' ''room_customer_1000_aaa_64f1a2b3c4d5e6f708192a3b'' ''64f1a2b3c4d5e6f708192a3b'' ''alice'' \<and>
   snd race_second = Connected ''customer_1000_bbb'' ''room_customer_1000_bbb_64f1a2b3c4d5e6f708192a3b'' ''64f1a2b3c4d5e6f708192a3b'' ''alice'' \<and>
   map r_status (chatRooms (fst race_second)) = [Active, Active] \<and>
   map r_workerId (chatRooms (fst race_second)) = [''64f1a2b3c4d5e6f708192a3b'', ''64f1a2b3c4d5e6f708192a3b''] \<and>
   map w_currentCustomer (workers (fst race_second)) = [Some ''customer_1000_bbb'']"
  by (simp add: eval_defs race_first_def race_second_def)

text \<open>Run one after the other, the second admission gets the busy response.\<close>

lemma admission_sequential_second_busy:
  "snd (post_customer_join 1001 ''bbb'' (fst (post_customer_join 1000 ''aaa'' one_available)))
     = BusyResponse ''customer_1001_bbb'' busy_message"
  by (simp add: eval_defs)

section \<open>Worker registration\<close>

lemma find_update_first:
  "(\<And>x. P x \<Longrightarrow> P (f x)) \<Longrightarrow> List.find P (update_first P f xs) = map_option f (List.find P xs)"
  by (induction xs) auto

lemma find_updateStatus_same:
  "List.find (\<lambda>w. w_id w = k) (updateStatus k st cc now ws)
     = map_option (\<lambda>w. w\<lparr>w_status := st, w_lastActive := now, w_currentCustomer := cc\<rparr>)
         (List.find (\<lambda>w. w_id w = k) ws)"
  unfolding updateStatus_def by (rule find_update_first) simp

text \<open>
  Claim C7, as amended. \<open>worker-join\<close> binds the socket to the worker (the socket's
  \<open>workerId\<close>, the worker's room, \<open>workerSockets\<close>) and sets the availability of
  the worker its id names to \<open>available\<close> whatever it was before: offline, available
  or busy. An id that does not cast names no worker: the binding is made and no worker
  is written.
\<close>

theorem worker_join_always_available:
  "sock_workerId (fst (on_worker_join now wid sock s)) = Some wid \<and>
   map_of (workerSockets (fst (snd (on_worker_join now wid sock s)))) wid = Some (sock_id sock) \<and>
   (sock_id sock, ''worker_'' @ wid) \<in> set (joined (fst (snd (on_worker_join now wid sock s)))) \<and>
   (case castObjectId wid of
      Some oid \<Rightarrow>
        map_option w_status (List.find (\<lambda>w. w_id w = oid) (workers (fst (snd (on_worker_join now wid sock s)))))
          = map_option (\<lambda>w. Available) (List.find (\<lambda>w. w_id w = oid) (workers s))
    | None \<Rightarrow> workers (fst (snd (on_worker_join now wid sock s))) = workers s)"
  by (simp add: on_worker_join_def Let_def socket_join_def AList.update_conv' find_updateStatus_same
        option.map_comp comp_def split: option.splits)

text \<open>
  A busy worker with an assigned customer joins from a second socket: it is available
  afterwards and its customer reference is cleared.
\<close>

theorem worker_join_busy_counterexample:
  "map w_status (workers in_session) = [Busy] \<and>
   map w_currentCustomer (workers in_session) = [Some ''customer_1000_aaa''] \<and>
   map w_status (workers (fst (snd (on_worker_join 2000 ''64f1a2b3c4d5e6f708192a3b'' (demo_socket ''sockW2'') in_session)))) = [Available] \<and>
   map w_currentCustomer (workers (fst (snd (on_worker_join 2000 ''64f1a2b3c4d5e6f708192a3b'' (demo_socket ''sockW2'') in_session)))) = [None]"
  by (simp add: eval_defs)

section \<open>Message submission\<close>

text \<open>
  Claim C9, as amended. When the save of a submitted message fails, the sending
  socket gets \<open>message-error\<close> and that is all: the save comes before the broadcast, so
  nothing is sent to the room, no timer is started and the state is unchanged.
\<close>

theorem save_failure_not_broadcast:
  assumes "saveMessage (make_messageData now d) (messages s) = Inl e"
  shows "on_send_message now d sock s
           = (sock, s, [Emit (ToSocket (sock_id sock)) (MessageError ''Failed to save message'')])"
  using assms by (simp add: on_send_message_def Let_def)

text \<open>The theorem above on a second submission in the millisecond of a stored message.\<close>

theorem save_failure_not_broadcast_witness:
  "saveMessage (make_messageData 1000 (hello\<lparr>sd_message := ''again''\<rparr>)) (messages one_message) = Inl DuplicateKey \<and>
   on_send_message 1000 (hello\<lparr>sd_message := ''again''\<rparr>) customer_socket one_message
     = (customer_socket, one_message, [Emit (ToSocket (sock_id customer_socket)) (MessageError ''Failed to save message'')])"
proof -
  have h: "saveMessage (make_messageData 1000 (hello\<lparr>sd_message := ''again''\<rparr>)) (messages one_message) = Inl DuplicateKey"
    by (simp add: eval_defs)
  show ?thesis using h save_failure_not_broadcast [OF h] by simp
qed

text \<open>
  A submission the schema rejects (a sender outside the enum): the only event goes to
  the sender, no \<open>new-message\<close> reaches the room.
\<close>

theorem save_failure_counterexample:
  "saveMessage (make_messageData 2000 (hello\<lparr>sd_sender := ''visitor''\<rparr>)) (messages in_session) = Inl ValidationError \<and>
   snd (snd (on_send_message 2000 (hello\<lparr>sd_sender := ''visitor''\<rparr>) customer_socket in_session))
     = [Emit (ToSocket ''sockC'') (MessageError ''Failed to save message'')] \<and>
   messages (fst (snd (on_send_message 2000 (hello\<lparr>sd_sender := ''visitor''\<rparr>) customer_socket in_session))) = []"
  by (simp add: eval_defs)




section \<open>Message identity\<close>

lemma saveMessage_cases:
  "saveMessage md ms = Inl ValidationError \<or> saveMessage md ms = Inl DuplicateKey \<or>
   (saveMessage md ms = Inr (ms @ [message_of md]) \<and> m_messageId (message_of md) \<notin> set (map m_messageId ms))"
  by (simp add: saveMessage_def Let_def)

lemma send_message_messages:
  "messages (fst (snd (on_send_message now d sock s)))
     = (case saveMessage (make_messageData now d) (messages s) of Inl e \<Rightarrow> messages s | Inr ms \<Rightarrow> ms)"
  by (simp add: on_send_message_def Let_def split: sum.splits)

lemma saveMessage_valid:
  "saveMessage md ms =
     (if \<not> Message_valid (message_of md) then Inl ValidationError
      else if m_messageId (message_of md) \<in> set (map m_messageId ms) then Inl DuplicateKey
      else Inr (ms @ [message_of md]))"
  by (auto simp: saveMessage_def Message_valid_def Let_def)

lemma show_nat_nonempty: "show_nat n \<noteq> []"
  by (subst show_nat.simps) simp

lemma digit_eq:
  "a < 10 \<Longrightarrow> b < 10 \<Longrightarrow> (''0123456789'' ! a = ''0123456789'' ! b) = (a = b)"
  by (rule nth_eq_iff_index_eq) simp_all

text \<open>The decimal string determines the number: two clock readings with one id are equal.\<close>

lemma show_nat_inj: "show_nat n = show_nat m \<Longrightarrow> n = m"
proof (induction n arbitrary: m rule: show_nat.induct)
  case (1 n)
  show ?case
  proof (cases "n < 10")
    case True
    then have n: "show_nat n = [''0123456789'' ! n]" by (subst show_nat.simps) simp
    have "m < 10"
    proof (rule ccontr)
      assume "\<not> m < 10"
      then have "show_nat m = show_nat (m div 10) @ [''0123456789'' ! (m mod 10)]"
        by (subst show_nat.simps) simp
      with n "1.prems" show_nat_nonempty [of "m div 10"] show False
        by (cases "show_nat (m div 10)") simp_all
    qed
    then have "show_nat m = [''0123456789'' ! m]" by (subst show_nat.simps) simp
    with n "1.prems" True \<open>m < 10\<close> show ?thesis by (simp add: digit_eq)
  next
    case False
    then have n: "show_nat n = show_nat (n div 10) @ [''0123456789'' ! (n mod 10)]"
      by (subst show_nat.simps) simp
    have "\<not> m < 10"
    proof
      assume "m < 10"
      then have "show_nat m = [''0123456789'' ! m]" by (subst show_nat.simps) simp
      with n "1.prems" show_nat_nonempty [of "n div 10"] show False
        by (cases "show_nat (n div 10)") simp_all
    qed
    then have m: "show_nat m = show_nat (m div 10) @ [''0123456789'' ! (m mod 10)]"
      by (subst show_nat.simps) simp
    from n m "1.prems" have p: "show_nat (n div 10) = show_nat (m div 10)"
      and d: "''0123456789'' ! (n mod 10) = ''0123456789'' ! (m mod 10)" by simp_all
    from "1.IH" [OF False p] have q: "n div 10 = m div 10" .
    from d have r: "n mod 10 = m mod 10" by (simp add: digit_eq)
    from q r show ?thesis by (metis div_mult_mod_eq)
  qed
qed

text \<open>
  Claim C5, as amended. The identity of a submitted message is the clock reading
  \<open>Date.now()\<close> of its submission, stored as its decimal string; two submissions have
  the same id exactly when their clock readings are equal, and their ids are ordered
  as the readings are. With distinct stored ids, a submission that the schema accepts
  and whose id is not yet stored is appended under that id, broadcast to its room as
  \<open>new-message\<close> with that id, and followed by the timer's \<open>delivered\<close>; any other
  submission (an id that is already stored, or a schema violation) changes nothing and
  only its sender gets \<open>message-error\<close>. In both cases the stored ids stay distinct.
\<close>

theorem message_identity_is_clock_reading:
  assumes "distinct (map m_messageId (messages s))"
  shows "md_id (make_messageData now d) = now \<and>
         m_messageId (message_of (make_messageData now d)) = show_nat now \<and>
         ((m_messageId (message_of (make_messageData now d))
             = m_messageId (message_of (make_messageData now' d'))) = (now = now')) \<and>
         ((md_id (make_messageData now d) < md_id (make_messageData now' d')) = (now < now')) \<and>
         on_send_message now d sock s
           = (if Message_valid (message_of (make_messageData now d)) \<and>
                 show_nat now \<notin> set (map m_messageId (messages s))
              then (sock, s\<lparr>messages := messages s @ [message_of (make_messageData now d)]\<rparr>,
                    [Emit (ToRoom (sd_roomId d)) (NewMessage (make_messageData now d)),
                     After 100 (ToRoom (sd_roomId d)) (MessageStatusUpdate now Delivered)])
              else (sock, s, [Emit (ToSocket (sock_id sock)) (MessageError ''Failed to save message'')])) \<and>
         distinct (map m_messageId (messages (fst (snd (on_send_message now d sock s)))))"
proof -
  have a: "md_id (make_messageData now d) = now" "md_id (make_messageData now' d') = now'"
    by (simp_all add: make_messageData_def)
  have b: "m_messageId (message_of (make_messageData now d)) = show_nat now"
    "m_messageId (message_of (make_messageData now' d')) = show_nat now'"
    by (simp_all add: message_of_def make_messageData_def)
  have c: "(show_nat now = show_nat now') = (now = now')"
    using show_nat_inj by blast
  have e: "on_send_message now d sock s
           = (if Message_valid (message_of (make_messageData now d)) \<and>
                 show_nat now \<notin> set (map m_messageId (messages s))
              then (sock, s\<lparr>messages := messages s @ [message_of (make_messageData now d)]\<rparr>,
                    [Emit (ToRoom (sd_roomId d)) (NewMessage (make_messageData now d)),
                     After 100 (ToRoom (sd_roomId d)) (MessageStatusUpdate now Delivered)])
              else (sock, s, [Emit (ToSocket (sock_id sock)) (MessageError ''Failed to save message'')]))"
    using a(1) b(1) by (simp add: on_send_message_def Let_def saveMessage_valid)
  have f: "distinct (map m_messageId (messages (fst (snd (on_send_message now d sock s)))))"
    using assms b(1) by (simp add: e)
  from a b c e f show ?thesis by simp
qed

text \<open>
  The theorem above on a second message sent one second after the first, and on one
  sent in the millisecond of the first.
\<close>

theorem message_identity_is_clock_reading_witness:
  "map m_messageId (messages one_message) = [''1000''] \<and>
   on_send_message 2000 hello customer_socket one_message
     = (customer_socket, one_message\<lparr>messages := messages one_message @ [message_of (make_messageData 2000 hello)]\<rparr>,
        [Emit (ToRoom ''room_customer_1000_aaa_64f1a2b3c4d5e6f708192a3b'') (NewMessage (make_messageData 2000 hello)),
         After 100 (ToRoom ''room_customer_1000_aaa_64f1a2b3c4d5e6f708192a3b'') (MessageStatusUpdate 2000 Delivered)]) \<and>
   m_messageId (message_of (make_messageData 2000 hello)) = ''2000'' \<and>
   on_send_message 1000 hello customer_socket one_message
     = (customer_socket, one_message, [Emit (ToSocket ''sockC'') (MessageError ''Failed to save message'')])"
proof -
  have h: "distinct (map m_messageId (messages one_message))" by (simp add: eval_defs)
  have i: "map m_messageId (messages one_message) = [''1000'']" by (simp add: eval_defs)
  have v: "Message_valid (message_of (make_messageData 2000 hello))"
    by (simp add: eval_defs Message_valid_def)
  have n: "show_nat 2000 = ''2000''" "show_nat 1000 = ''1000''" by (simp_all add: show_nat.simps)
  from i v n
    message_identity_is_clock_reading [OF h, of 2000 hello 2000 hello customer_socket]
    message_identity_is_clock_reading [OF h, of 1000 hello 1000 hello customer_socket]
  show ?thesis by (simp add: hello_def customer_socket_def)
qed

text \<open>
  Two messages submitted to one room in the same millisecond get the same id, and the
  second is rejected with \<open>message-error\<close>; a message submitted at an earlier clock
  reading is stored with the smaller id after the first.
\<close>

theorem same_millisecond_counterexample:
  "on_send_message 1000 hello customer_socket in_session
     = (customer_socket, one_message,
        [Emit (ToRoom ''room_customer_1000_aaa_64f1a2b3c4d5e6f708192a3b'') (NewMessage (make_messageData 1000 hello)),
         After 100 (ToRoom ''room_customer_1000_aaa_64f1a2b3c4d5e6f708192a3b'') (MessageStatusUpdate 1000 Delivered)]) \<and>
   md_id (make_messageData 1000 hello) = 1000 \<and>
   md_id (make_messageData 1000 (hello\<lparr>sd_message := ''again''\<rparr>)) = 1000 \<and>
   on_send_message 1000 (hello\<lparr>sd_message := ''again''\<rparr>) customer_socket one_message
     = (customer_socket, one_message,
        [Emit (ToSocket ''sockC'') (MessageError ''Failed to save message'')]) \<and>
   map m_messageId (messages (fst (snd (on_send_message 999 (hello\<lparr>sd_message := ''again''\<rparr>) customer_socket one_message))))
     = [''1000'', ''999'']"
  by (simp add: eval_defs)

section \<open>Customer disconnect\<close>

lemma find_update_first_key:
  "(\<And>x. key (f x) = key x) \<Longrightarrow>
   map_option key (List.find (\<lambda>x. key x = k) (update_first Q f xs))
     = map_option key (List.find (\<lambda>x. key x = k) xs)"
  by (induction xs) auto

lemma find_updateStatus_exists:
  "map_option (\<lambda>w. c) (List.find (\<lambda>w. w_id w = k) (updateStatus k' st cc now ws))
     = map_option (\<lambda>w. c) (List.find (\<lambda>w. w_id w = k) ws)"
proof -
  have "map_option w_id (List.find (\<lambda>w. w_id w = k) (updateStatus k' st cc now ws))
     = map_option w_id (List.find (\<lambda>w. w_id w = k) ws)"
    unfolding updateStatus_def by (rule find_update_first_key) simp
  then have "map_option (\<lambda>i. c) (map_option w_id (List.find (\<lambda>w. w_id w = k) (updateStatus k' st cc now ws)))
     = map_option (\<lambda>i. c) (map_option w_id (List.find (\<lambda>w. w_id w = k) ws))"
    by simp
  then show ?thesis by (simp add: option.map_comp comp_def)
qed

lemma find_ChatRoom_end:
  "List.find (\<lambda>r. r_roomId r = rid) (ChatRoom_end rid now rs)
     = map_option (\<lambda>r. r\<lparr>r_status := Ended, r_endedAt := Some now\<rparr>) (List.find (\<lambda>r. r_roomId r = rid) rs)"
  unfolding ChatRoom_end_def by (rule find_update_first) simp

text \<open>
  Claim C4, as amended. When the socket of a customer that is in \<open>activeCustomers\<close>
  disconnects, \<open>customer-disconnected\<close> is emitted to the room of its worker, that
  worker's availability becomes \<open>available\<close>, the room the socket joined gets status
  \<open>ended\<close> and an end time, and the customer's entry is removed from
  \<open>activeCustomers\<close>.
\<close>

theorem customer_drop_ends_session:
  assumes "sock_customerId sock = Some cid" and "cid \<noteq> []"
      and "sock_roomId sock = Some rid" and "rid \<noteq> []"
      and "map_of (activeCustomers s) cid = Some c"
  shows "snd (snd (on_disconnect now sock s))
           = [Emit (ToRoom (''worker_'' @ c_workerId c)) (CustomerDisconnected cid)] \<and>
         map_option w_status (List.find (\<lambda>w. w_id w = c_workerId c) (workers (fst (snd (on_disconnect now sock s)))))
           = map_option (\<lambda>w. Available) (List.find (\<lambda>w. w_id w = c_workerId c) (workers s)) \<and>
         List.find (\<lambda>r. r_roomId r = rid) (chatRooms (fst (snd (on_disconnect now sock s))))
           = map_option (\<lambda>r. r\<lparr>r_status := Ended, r_endedAt := Some now\<rparr>)
               (List.find (\<lambda>r. r_roomId r = rid) (chatRooms s)) \<and>
         map_of (activeCustomers (fst (snd (on_disconnect now sock s)))) cid = None"
proof -
  define s0 where "s0 = s\<lparr>connected := removeAll (sock_id sock) (connected s),
                           joined := filter (\<lambda>p. fst p \<noteq> sock_id sock) (joined s)\<rparr>"
  define s1 where "s1 = (if truthy (sock_workerId sock)
                then (case castObjectId (the (sock_workerId sock)) of
                        None \<Rightarrow> s0
                      | Some oid \<Rightarrow>
                          s0\<lparr>workers := updateStatus oid Offline None now (workers s0),
                             workerSockets := AList.delete (the (sock_workerId sock)) (workerSockets s0)\<rparr>)
                else s0)"
  have a: "activeCustomers s1 = activeCustomers s" "chatRooms s1 = chatRooms s"
    by (simp_all add: s1_def s0_def split: option.splits)
  have w: "map_option (\<lambda>w. Available) (List.find (\<lambda>w. w_id w = c_workerId c) (workers s1))
             = map_option (\<lambda>w. Available) (List.find (\<lambda>w. w_id w = c_workerId c) (workers s))"
    by (simp add: s1_def s0_def find_updateStatus_exists split: option.splits)
  have r: "on_disconnect now sock s
             = (sock,
                s1\<lparr>workers := updateStatus (c_workerId c) Available None now (workers s1),
                   chatRooms := ChatRoom_end rid now (chatRooms s1),
                   activeCustomers := AList.delete cid (activeCustomers s1)\<rparr>,
                [Emit (ToRoom (''worker_'' @ c_workerId c)) (CustomerDisconnected cid)])"
    using assms a(1)
    unfolding on_disconnect_def Let_def s0_def [symmetric]
    unfolding s1_def [symmetric]
    by (simp add: truthy_def)
  show ?thesis
    using a w
    by (simp add: r find_updateStatus_same find_ChatRoom_end AList.delete_conv
          option.map_comp comp_def)
qed

text \<open>The theorem above on the customer of the example session.\<close>

theorem customer_drop_ends_session_witness:
  "sock_customerId customer_socket = Some ''customer_1000_aaa'' \<and>
   sock_roomId customer_socket = Some ''room_customer_1000_aaa_64f1a2b3c4d5e6f708192a3b'' \<and>
   map_of (activeCustomers in_session) ''customer_1000_aaa''
     = Some \<lparr>c_id = ''customer_1000_aaa'', c_roomId = ''room_customer_1000_aaa_64f1a2b3c4d5e6f708192a3b'',
             c_workerId = ''64f1a2b3c4d5e6f708192a3b'', c_workerName = ''alice'', c_joinedAt = 1000\<rparr> \<and>
   snd (snd (on_disconnect 7000 customer_socket in_session))
     = [Emit (ToRoom ''worker_64f1a2b3c4d5e6f708192a3b'') (CustomerDisconnected ''customer_1000_aaa'')] \<and>
   map_option w_status (List.find (\<lambda>w. w_id w = ''64f1a2b3c4d5e6f708192a3b'') (workers (fst (snd (on_disconnect 7000 customer_socket in_session)))))
     = Some Available \<and>
   List.find (\<lambda>r. r_roomId r = ''room_customer_1000_aaa_64f1a2b3c4d5e6f708192a3b'') (chatRooms (fst (snd (on_disconnect 7000 customer_socket in_session))))
     = Some (demo_room Ended (Some 7000)) \<and>
   map_of (activeCustomers (fst (snd (on_disconnect 7000 customer_socket in_session)))) ''customer_1000_aaa'' = None"
proof -
  have h1: "sock_customerId customer_socket = Some ''customer_1000_aaa''"
    and h2: "''customer_1000_aaa'' \<noteq> []"
    and h3: "sock_roomId customer_socket = Some ''room_customer_1000_aaa_64f1a2b3c4d5e6f708192a3b''"
    and h4: "''room_customer_1000_aaa_64f1a2b3c4d5e6f708192a3b'' \<noteq> []"
    and h5: "map_of (activeCustomers in_session) ''customer_1000_aaa''
     = Some \<lparr>c_id = ''customer_1000_aaa'', c_roomId = ''room_customer_1000_aaa_64f1a2b3c4d5e6f708192a3b'',
             c_workerId = ''64f1a2b3c4d5e6f708192a3b'', c_workerName = ''alice'', c_joinedAt = 1000\<rparr>"
    by (simp_all add: customer_socket_def in_session_def)
  have w: "List.find (\<lambda>w. w_id w = ''64f1a2b3c4d5e6f708192a3b'') (workers in_session)
             = Some (demo_worker ''64f1a2b3c4d5e6f708192a3b'' ''alice'' Busy (Some ''customer_1000_aaa'') 1000)"
    and r: "List.find (\<lambda>r. r_roomId r = ''room_customer_1000_aaa_64f1a2b3c4d5e6f708192a3b'') (chatRooms in_session)
             = Some (demo_room Active None)"
    by (simp_all add: in_session_def demo_worker_def demo_room_def)
  show ?thesis
    using h1 h3 h5 w r customer_drop_ends_session [OF h1 h2 h3 h4 h5, of 7000]
    by (simp add: demo_room_def)
qed

text \<open>After the customer's disconnect the active room is \<open>ended\<close>, not \<open>abandoned\<close>.\<close>

theorem abandoned_counterexample:
  "map r_status (chatRooms in_session) = [Active] \<and>
   map r_status (chatRooms (fst (snd (on_disconnect 7000 customer_socket in_session)))) = [Ended]"
  by (simp add: eval_defs)

section \<open>Delivery status\<close>

lemma status_rank_le_Read: "status_rank st \<le> status_rank Read"
  by (cases st) (simp_all add: status_rank_def)

lemma length_update_first: "length (update_first P f xs) = length xs"
  by (induction xs) auto

lemma list_all2_update_first:
  "(\<And>x. R x x) \<Longrightarrow> (\<And>x. R x (f x)) \<Longrightarrow> list_all2 R xs (update_first P f xs)"
  by (induction xs) (auto simp: list_all2_same)

lemma list_all2_map_cond:
  "(\<And>x. R x x) \<Longrightarrow> (\<And>x. R x (f x)) \<Longrightarrow> list_all2 R xs (map (\<lambda>x. if Q x then f x else x) xs)"
  by (induction xs) auto

lemma no_regress_refl: "no_regress ms ms"
  by (simp add: no_regress_def list_all2_same)

lemma no_regress_append: "no_regress ms (ms @ xs)"
  by (simp add: no_regress_def list_all2_same)

lemma no_regress_read_first:
  "no_regress ms (Message_updateStatus k Read ms)"
  unfolding no_regress_def Message_updateStatus_def
  by (simp add: length_update_first list_all2_update_first status_rank_le_Read)

lemma no_regress_read_many:
  "no_regress ms (map (\<lambda>m. if Q m then m\<lparr>m_status := Read\<rparr> else m) ms)"
  unfolding no_regress_def
  by (simp add: list_all2_map_cond status_rank_le_Read)

lemma messages_assign: "messages (fst (assignCustomerToWorker cid wk now s)) = messages s"
  by (simp add: assignCustomerToWorker_def Let_def split: sum.splits)

lemma messages_post_customer_join: "messages (fst (post_customer_join now rnd s)) = messages s"
proof (cases "findAvailableWorker (workers s)")
  case None
  then show ?thesis by (simp add: post_customer_join_def join_continue_def)
next
  case (Some wk)
  obtain s' r where a: "assignCustomerToWorker (new_customerId now rnd) wk now s = (s', r)"
    by (cases "assignCustomerToWorker (new_customerId now rnd) wk now s")
  with messages_assign [of "new_customerId now rnd" wk now s] have "messages s' = messages s" by simp
  with Some a show ?thesis
    by (cases r) (simp_all add: post_customer_join_def join_continue_def)
qed

lemma messages_worker_join: "messages (fst (snd (on_worker_join now wid sock s))) = messages s"
  by (simp add: on_worker_join_def Let_def socket_join_def split: option.splits)

lemma messages_customer_join: "messages (fst (snd (on_customer_join cid rid sock s))) = messages s"
  by (simp add: on_customer_join_def Let_def socket_join_def split: option.splits)

lemma messages_typing: "messages (fst (snd (on_typing b rid sender sock s))) = messages s"
  by (simp add: on_typing_def)

lemma messages_end_chat: "messages (fst (snd (on_end_chat now rid wid sock s))) = messages s"
  by (simp add: on_end_chat_def Let_def split: option.splits)

lemma messages_disconnect: "messages (fst (snd (on_disconnect now sock s))) = messages s"
  by (simp add: on_disconnect_def Let_def split: option.splits)

lemma no_regress_send: "no_regress (messages s) (messages (fst (snd (on_send_message now d sock s))))"
  using saveMessage_cases [of "make_messageData now d" "messages s"]
  by (auto simp: send_message_messages no_regress_refl no_regress_append)

lemma no_regress_message_read:
  "no_regress (messages s) (messages (fst (snd (on_message_read rid mid sock s))))"
  by (simp add: on_message_read_def no_regress_refl no_regress_read_first)

lemma no_regress_messages_read:
  "no_regress (messages s) (messages (fst (snd (on_messages_read rid mids sock s))))"
  by (simp add: on_messages_read_def no_regress_read_many)

lemma no_regress_step: "no_regress (messages s) (messages (fst (snd (step e sock s))))"
proof (cases e)
  case (PostCustomerJoin now rnd)
  obtain s' r where p: "post_customer_join now rnd s = (s', r)"
    by (cases "post_customer_join now rnd s")
  with messages_post_customer_join [of now rnd s] have "messages s' = messages s" by simp
  with PostCustomerJoin p show ?thesis by (simp add: no_regress_refl)
next
  case (SendMessage now d)
  then show ?thesis by (simp add: no_regress_send)
next
  case (MessageRead rid mid)
  then show ?thesis by (simp add: no_regress_message_read)
next
  case (MessagesRead rid mids)
  then show ?thesis by (simp add: no_regress_messages_read)
qed (simp_all add: no_regress_refl messages_worker_join messages_customer_join messages_typing
       messages_end_chat messages_disconnect)

lemma update_first_fixed:
  "List.find P xs = Some x \<Longrightarrow> f x = x \<Longrightarrow> update_first P f xs = xs"
  by (induction xs) (auto split: if_splits)

lemma message_read_on_read:
  assumes "map_option m_status (List.find (\<lambda>m. m_messageId m = show_nat mid) (messages s)) = Some Read"
  shows "on_message_read rid mid sock s
           = (sock, s, if rid = [] \<or> mid = 0 then [] else [Emit (ToRoom rid) (MessageStatusUpdate mid Read)])"
proof -
  from assms obtain m where m: "List.find (\<lambda>m. m_messageId m = show_nat mid) (messages s) = Some m"
    and r: "m_status m = Read" by auto
  from r have "m\<lparr>m_status := Read\<rparr> = m" by simp
  with m have "Message_updateStatus (show_nat mid) Read (messages s) = messages s"
    unfolding Message_updateStatus_def by (rule_tac update_first_fixed) auto
  then show ?thesis by (simp add: on_message_read_def)
qed

text \<open>No handler writes a status other than \<open>sent\<close> (a new message) and \<open>read\<close>.\<close>

lemma statuses_read_first:
  "set (map m_status (Message_updateStatus k Read ms)) \<subseteq> insert Read (set (map m_status ms))"
  unfolding Message_updateStatus_def by (induction ms) auto

lemma statuses_step:
  "set (map m_status (messages (fst (snd (step e sock s)))))
     \<subseteq> {Sent, Read} \<union> set (map m_status (messages s))"
proof (cases e)
  case (PostCustomerJoin now rnd)
  obtain s' r where p: "post_customer_join now rnd s = (s', r)"
    by (cases "post_customer_join now rnd s")
  with messages_post_customer_join [of now rnd s] have "messages s' = messages s" by simp
  with PostCustomerJoin p show ?thesis by auto
next
  case (SendMessage now d)
  have "m_status (message_of (make_messageData now d)) = Sent"
    by (simp add: message_of_def make_messageData_def)
  with SendMessage saveMessage_cases [of "make_messageData now d" "messages s"] show ?thesis
    by (auto simp: send_message_messages)
next
  case (MessageRead rid mid)
  with statuses_read_first [of "show_nat mid" "messages s"] show ?thesis
    by (auto simp: on_message_read_def)
next
  case (MessagesRead rid mids)
  then show ?thesis by (auto simp: on_messages_read_def)
qed (auto simp: messages_worker_join messages_customer_join messages_typing
       messages_end_chat messages_disconnect)

lemma never_delivered_step:
  "Delivered \<notin> set (map m_status (messages s)) \<Longrightarrow>
   Delivered \<notin> set (map m_status (messages (fst (snd (step e sock s)))))"
  using statuses_step [of e sock s] by auto

text \<open>No handler emits \<open>delivered\<close> itself; only the timer of \<open>send-message\<close> announces it.\<close>

lemma no_emit_delivered_step:
  "Emit t (MessageStatusUpdate i Delivered) \<notin> set (snd (snd (step e sock s)))"
proof (cases e)
  case (PostCustomerJoin now rnd)
  then show ?thesis by (cases "post_customer_join now rnd s") simp
next
  case (WorkerJoin now wid)
  then show ?thesis by (simp add: on_worker_join_def Let_def split: option.splits)
next
  case (CustomerJoin cid rid)
  then show ?thesis by (simp add: on_customer_join_def Let_def split: option.splits)
next
  case (SendMessage now d)
  then show ?thesis by (simp add: on_send_message_def Let_def split: sum.splits)
next
  case (TypingStart rid sender)
  then show ?thesis by (simp add: on_typing_def)
next
  case (TypingStop rid sender)
  then show ?thesis by (simp add: on_typing_def)
next
  case (MessageRead rid mid)
  then show ?thesis by (simp add: on_message_read_def)
next
  case (MessagesRead rid mids)
  then show ?thesis by (auto simp: on_messages_read_def)
next
  case (EndChat now rid wid)
  then show ?thesis by (simp add: on_end_chat_def Let_def split: option.splits)
next
  case (Disconnect now)
  then show ?thesis by (simp add: on_disconnect_def Let_def split: option.splits)
qed

lemma send_stores_sent:
  assumes "saveMessage (make_messageData now d) (messages s) = Inr ms"
  shows "m_status (last ms) = Sent \<and>
         on_send_message now d sock s
           = (sock, s\<lparr>messages := ms\<rparr>,
              [Emit (ToRoom (sd_roomId d)) (NewMessage (make_messageData now d)),
               After 100 (ToRoom (sd_roomId d)) (MessageStatusUpdate now Delivered)])"
proof -
  from assms saveMessage_cases [of "make_messageData now d" "messages s"]
  have "ms = messages s @ [message_of (make_messageData now d)]" by auto
  then have "m_status (last ms) = Sent" by (simp add: message_of_def make_messageData_def)
  with assms show ?thesis by (simp add: on_send_message_def Let_def make_messageData_def)
qed

text \<open>
  Claim C3, as amended. Whatever event the broker handles, every stored message keeps
  its place and id and its stored status is the same or a later one in the order sent,
  delivered, read. The store holds a message as \<open>sent\<close> and then as \<open>read\<close>: a store
  without a \<open>delivered\<close> message has none after any event, no handler emits
  \<open>delivered\<close> itself, and a message that is saved is stored as \<open>sent\<close> while the
  100 ms timer of \<open>send-message\<close> announces \<open>delivered\<close> to the room. A
  \<open>message-read\<close> for a message whose stored status is already \<open>read\<close> leaves the
  state as it is, and is not dropped: unless the room or message id is missing, the
  status update is broadcast to the room again.
\<close>

theorem stored_status_never_regresses:
  "no_regress (messages s) (messages (fst (snd (step e sock s)))) \<and>
   (Delivered \<notin> set (map m_status (messages s)) \<longrightarrow>
    Delivered \<notin> set (map m_status (messages (fst (snd (step e sock s)))))) \<and>
   Emit t (MessageStatusUpdate i Delivered) \<notin> set (snd (snd (step e sock s))) \<and>
   (saveMessage (make_messageData now d) (messages s) = Inr ms \<longrightarrow>
    m_status (last ms) = Sent \<and>
    on_send_message now d sock s
      = (sock, s\<lparr>messages := ms\<rparr>,
         [Emit (ToRoom (sd_roomId d)) (NewMessage (make_messageData now d)),
          After 100 (ToRoom (sd_roomId d)) (MessageStatusUpdate now Delivered)])) \<and>
   (map_option m_status (List.find (\<lambda>m. m_messageId m = show_nat messageId) (messages s)) = Some Read \<longrightarrow>
    on_message_read roomId messageId sock s
      = (sock, s, if roomId = [] \<or> messageId = 0 then []
                  else [Emit (ToRoom roomId) (MessageStatusUpdate messageId Read)]))"
  using no_regress_step [of s e sock] never_delivered_step [of s e sock]
    no_emit_delivered_step [of t i e sock s] send_stores_sent [of now d s ms sock]
    message_read_on_read [of messageId s roomId sock]
  by blast

text \<open>
  The theorem above on a first and on a repeated \<open>message-read\<close> of one message, and
  on a second message sent to the room.
\<close>

theorem stored_status_never_regresses_witness:
  "map m_status (messages one_message) = [Sent] \<and>
   map m_status (messages (fst (snd (step (MessageRead ''room_customer_1000_aaa_64f1a2b3c4d5e6f708192a3b'' 1000) worker_socket one_message)))) = [Read] \<and>
   no_regress (messages one_message)
     (messages (fst (snd (step (MessageRead ''room_customer_1000_aaa_64f1a2b3c4d5e6f708192a3b'' 1000) worker_socket one_message)))) \<and>
   map_option m_status (List.find (\<lambda>m. m_messageId m = show_nat 1000) (messages read_message)) = Some Read \<and>
   on_message_read ''room_customer_1000_aaa_64f1a2b3c4d5e6f708192a3b'' 1000 worker_socket read_message
     = (worker_socket, read_message,
        [Emit (ToRoom ''room_customer_1000_aaa_64f1a2b3c4d5e6f708192a3b'') (MessageStatusUpdate 1000 Read)]) \<and>
   saveMessage (make_messageData 2000 hello) (messages read_message)
     = Inr (messages read_message @ [message_of (make_messageData 2000 hello)]) \<and>
   map m_status (messages read_message @ [message_of (make_messageData 2000 hello)]) = [Read, Sent] \<and>
   snd (snd (on_send_message 2000 hello customer_socket read_message))
     = [Emit (ToRoom ''room_customer_1000_aaa_64f1a2b3c4d5e6f708192a3b'') (NewMessage (make_messageData 2000 hello)),
        After 100 (ToRoom ''room_customer_1000_aaa_64f1a2b3c4d5e6f708192a3b'') (MessageStatusUpdate 2000 Delivered)]"
proof -
  have h: "map_option m_status (List.find (\<lambda>m. m_messageId m = show_nat 1000) (messages read_message)) = Some Read"
    by (simp add: eval_defs read_message_def)
  have a: "map m_status (messages one_message) = [Sent]"
    and b: "map m_status (messages (fst (snd (step (MessageRead ''room_customer_1000_aaa_64f1a2b3c4d5e6f708192a3b'' 1000) worker_socket one_message)))) = [Read]"
    by (simp_all add: eval_defs read_message_def)
  have c: "saveMessage (make_messageData 2000 hello) (messages read_message)
             = Inr (messages read_message @ [message_of (make_messageData 2000 hello)])"
    and d: "map m_status (messages read_message @ [message_of (make_messageData 2000 hello)]) = [Read, Sent]"
    and e: "sd_roomId hello = ''room_customer_1000_aaa_64f1a2b3c4d5e6f708192a3b''"
    by (simp_all add: eval_defs read_message_def)
  show ?thesis
    using h a b c d e
      stored_status_never_regresses [where s = one_message
        and e = "MessageRead ''room_customer_1000_aaa_64f1a2b3c4d5e6f708192a3b'' 1000"
        and sock = worker_socket]
      stored_status_never_regresses [where s = read_message
        and e = "MessageRead ''room_customer_1000_aaa_64f1a2b3c4d5e6f708192a3b'' 1000"
        and sock = worker_socket and messageId = 1000
        and roomId = "''room_customer_1000_aaa_64f1a2b3c4d5e6f708192a3b''"]
      stored_status_never_regresses [where s = read_message and sock = customer_socket
        and now = 2000 and d = hello
        and ms = "messages read_message @ [message_of (make_messageData 2000 hello)]"]
    by simp
qed

text \<open>
  A \<open>message-read\<close> for a message that is already read is answered by a broadcast to
  the room.
\<close>

theorem mark_read_rebroadcast_counterexample:
  "map m_status (messages read_message) = [Read] \<and>
   snd (snd (on_message_read ''room_customer_1000_aaa_64f1a2b3c4d5e6f708192a3b'' 1000 worker_socket read_message))
     = [Emit (ToRoom ''room_customer_1000_aaa_64f1a2b3c4d5e6f708192a3b'') (MessageStatusUpdate 1000 Read)]"
  by (simp add: eval_defs read_message_def)

section \<open>The busy invariant\<close>

lemma update_first_distinct_map:
  "distinct (map key xs) \<Longrightarrow>
   update_first (\<lambda>x. key x = k) f xs = map (\<lambda>x. if key x = k then f x else x) xs"
proof (induction xs)
  case Nil
  show ?case by simp
next
  case (Cons x xs)
  show ?case
  proof (cases "key x = k")
    case True
    from Cons.prems have "key x \<notin> key ` set xs" by simp
    with True have "\<And>y. y \<in> set xs \<Longrightarrow> key y \<noteq> k" by (metis imageI)
    then have "map (\<lambda>x. if key x = k then f x else x) xs = xs" by (simp add: map_idI)
    with True show ?thesis by simp
  next
    case False
    with Cons show ?thesis by simp
  qed
qed

lemma map_key_update_first:
  "(\<And>x. key (f x) = key x) \<Longrightarrow> map key (update_first P f xs) = map key xs"
  by (induction xs) auto

lemma map_w_id_updateStatus: "map w_id (updateStatus k st cc now ws) = map w_id ws"
  unfolding updateStatus_def by (rule map_key_update_first) simp

lemma map_r_roomId_end: "map r_roomId (ChatRoom_end rid now rs) = map r_roomId rs"
  unfolding ChatRoom_end_def by (rule map_key_update_first) simp

lemma set_updateStatus:
  assumes "distinct (map w_id ws)" and "w' \<in> set (updateStatus k st cc now ws)"
  shows "\<exists>w\<in>set ws. w_id w' = w_id w \<and>
           (if w_id w = k then w_status w' = st else w_status w' = w_status w)"
proof -
  from assms(1) have "updateStatus k st cc now ws
      = map (\<lambda>w. if w_id w = k then w\<lparr>w_status := st, w_lastActive := now, w_currentCustomer := cc\<rparr> else w) ws"
    unfolding updateStatus_def by (rule update_first_distinct_map)
  with assms(2) show ?thesis by auto
qed

lemma find_distinct_iff:
  "distinct (map key xs) \<Longrightarrow>
   (List.find (\<lambda>x. key x = k) xs = Some x) = (x \<in> set xs \<and> key x = k)"
  by (induction xs) (auto simp: rev_image_eqI)

lemma active_sessions_append:
  "active_sessions (rs @ [r]) wid
     = active_sessions rs wid + (if r_status r = Active \<and> r_workerId r = wid then 1 else 0)"
  by (simp add: active_sessions_def)

lemma names_active_room_count:
  "names_active_room rid wid rs \<Longrightarrow> 0 < active_sessions rs wid"
proof (induction rs)
  case Nil
  then show ?case by (simp add: names_active_room_def)
next
  case (Cons r rs)
  then show ?case
    by (cases "r_roomId r = rid") (auto simp: names_active_room_def active_sessions_def)
qed

lemma active_sessions_end:
  assumes "distinct (map r_roomId rs)" and "names_active_room rid wid0 rs"
  shows "active_sessions (ChatRoom_end rid now rs) wid
           = active_sessions rs wid - (if wid = wid0 then 1 else 0)"
  using assms
proof (induction rs)
  case Nil
  then show ?case by (simp add: names_active_room_def)
next
  case (Cons r rs)
  show ?case
  proof (cases "r_roomId r = rid")
    case True
    with Cons.prems show ?thesis
      by (auto simp: names_active_room_def ChatRoom_end_def active_sessions_def)
  next
    case False
    with Cons.prems have "names_active_room rid wid0 rs" "distinct (map r_roomId rs)"
      by (simp_all add: names_active_room_def)
    from Cons.IH [OF this(2) this(1)] names_active_room_count [OF this(1)] False show ?thesis
      by (auto simp: ChatRoom_end_def active_sessions_def)
  qed
qed

lemma set_ChatRoom_end:
  "r' \<in> set (ChatRoom_end rid now rs) \<Longrightarrow> r_status r' = Active \<Longrightarrow> r' \<in> set rs"
  unfolding ChatRoom_end_def
  by (induction rs) (auto split: if_splits)

text \<open>Releasing the worker of an active room and ending that room.\<close>

lemma broker_inv_release:
  assumes inv: "broker_inv ws rs" and room: "names_active_room rid wid rs"
  shows "broker_inv (updateStatus wid Available cc now ws) (ChatRoom_end rid now rs)"
proof -
  from inv have dw: "distinct (map w_id ws)" and dr: "distinct (map r_roomId rs)"
    and cnt: "\<And>w. w \<in> set ws \<Longrightarrow> active_sessions rs (w_id w) = (if w_status w = Busy then 1 else 0)"
    and ref: "\<And>r. r \<in> set rs \<Longrightarrow> r_status r = Active \<Longrightarrow> r_workerId r \<in> set (map w_id ws)"
    by (auto simp: broker_inv_def list_all_iff)
  have c': "active_sessions (ChatRoom_end rid now rs) (w_id w')
              = (if w_status w' = Busy then 1 else 0)"
    if w': "w' \<in> set (updateStatus wid Available cc now ws)" for w'
  proof -
    from set_updateStatus [OF dw w'] obtain w where w: "w \<in> set ws" "w_id w' = w_id w"
      and st: "if w_id w = wid then w_status w' = Available else w_status w' = w_status w"
      by blast
    show ?thesis
    proof (cases "w_id w = wid")
      case True
      from names_active_room_count [OF room] True cnt [OF w(1)]
      have "active_sessions rs (w_id w) = 1" by (auto split: if_splits)
      with True st w(2) show ?thesis by (simp add: active_sessions_end [OF dr room])
    next
      case False
      with st w(2) cnt [OF w(1)] show ?thesis by (simp add: active_sessions_end [OF dr room])
    qed
  qed
  have r': "r_workerId r' \<in> set (map w_id (updateStatus wid Available cc now ws))"
    if "r' \<in> set (ChatRoom_end rid now rs)" "r_status r' = Active" for r'
    using ref [OF set_ChatRoom_end [OF that] that(2)] by (simp add: map_w_id_updateStatus)
  from dw dr c' r' show ?thesis
    unfolding broker_inv_def list_all_iff
    by (simp add: map_w_id_updateStatus map_r_roomId_end)
qed

text \<open>Setting a worker that is not busy to available or offline.\<close>

lemma broker_inv_idle:
  assumes inv: "broker_inv ws rs"
    and idle: "map_option w_status (List.find (\<lambda>w. w_id w = wid) ws) \<noteq> Some Busy"
    and st: "st \<noteq> Busy"
  shows "broker_inv (updateStatus wid st cc now ws) rs"
proof -
  from inv have dw: "distinct (map w_id ws)" and dr: "distinct (map r_roomId rs)"
    and cnt: "\<And>w. w \<in> set ws \<Longrightarrow> active_sessions rs (w_id w) = (if w_status w = Busy then 1 else 0)"
    and ref: "\<And>r. r \<in> set rs \<Longrightarrow> r_status r = Active \<Longrightarrow> r_workerId r \<in> set (map w_id ws)"
    by (auto simp: broker_inv_def list_all_iff)
  have c': "active_sessions rs (w_id w') = (if w_status w' = Busy then 1 else 0)"
    if w': "w' \<in> set (updateStatus wid st cc now ws)" for w'
  proof -
    from set_updateStatus [OF dw w'] obtain w where w: "w \<in> set ws" "w_id w' = w_id w"
      and s: "if w_id w = wid then w_status w' = st else w_status w' = w_status w"
      by blast
    show ?thesis
    proof (cases "w_id w = wid")
      case True
      with w(1) dw have "List.find (\<lambda>w. w_id w = wid) ws = Some w"
        by (simp add: find_distinct_iff)
      with idle have "w_status w \<noteq> Busy" by simp
      with cnt [OF w(1)] True s st w(2) show ?thesis by simp
    next
      case False
      with s w(2) cnt [OF w(1)] show ?thesis by simp
    qed
  qed
  from dw dr c' ref show ?thesis
    unfolding broker_inv_def list_all_iff
    by (simp add: map_w_id_updateStatus)
qed

text \<open>Reserving an available worker and creating its room.\<close>

lemma broker_inv_assign:
  assumes inv: "broker_inv ws rs" and wk: "wk \<in> set ws" "w_status wk = Available"
    and cr: "ChatRoom_create roomId cid wk now rs = Inr rs'"
  shows "broker_inv (updateStatus (w_id wk) Busy cc now ws) rs'"
proof -
  from inv have dw: "distinct (map w_id ws)" and dr: "distinct (map r_roomId rs)"
    and cnt: "\<And>w. w \<in> set ws \<Longrightarrow> active_sessions rs (w_id w) = (if w_status w = Busy then 1 else 0)"
    and ref: "\<And>r. r \<in> set rs \<Longrightarrow> r_status r = Active \<Longrightarrow> r_workerId r \<in> set (map w_id ws)"
    by (auto simp: broker_inv_def list_all_iff)
  define r0 where "r0 = \<lparr>r_roomId = roomId, r_customerId = cid, r_workerId = w_id wk,
                       r_workerName = w_username wk, r_status = Active, r_createdAt = now,
                       r_endedAt = None, r_messageCount = 0\<rparr>"
  from cr have rs': "rs' = rs @ [r0]" and fresh: "roomId \<notin> set (map r_roomId rs)"
    by (auto simp: ChatRoom_create_def r0_def split: if_splits)
  have c': "active_sessions rs' (w_id w') = (if w_status w' = Busy then 1 else 0)"
    if w': "w' \<in> set (updateStatus (w_id wk) Busy cc now ws)" for w'
  proof -
    from set_updateStatus [OF dw w'] obtain w where w: "w \<in> set ws" "w_id w' = w_id w"
      and s: "if w_id w = w_id wk then w_status w' = Busy else w_status w' = w_status w"
      by blast
    show ?thesis
    proof (cases "w_id w = w_id wk")
      case True
      from cnt [OF wk(1)] wk(2) have "active_sessions rs (w_id wk) = 0" by simp
      with True s w(2) show ?thesis by (simp add: rs' active_sessions_append r0_def)
    next
      case False
      with s w(2) cnt [OF w(1)] show ?thesis by (simp add: rs' active_sessions_append r0_def)
    qed
  qed
  have r': "r_workerId r \<in> set (map w_id ws)" if "r \<in> set rs'" "r_status r = Active" for r
    using that ref wk(1) by (auto simp: rs' r0_def)
  from dw dr fresh c' r' show ?thesis
    unfolding broker_inv_def list_all_iff
    by (simp add: map_w_id_updateStatus rs' r0_def)
qed

text \<open>Ending a room that is not active, and both releases together.\<close>

lemma find_update_first_other:
  "(\<And>x. key (f x) = key x) \<Longrightarrow> k' \<noteq> k \<Longrightarrow>
   List.find (\<lambda>x. key x = k') (update_first (\<lambda>x. key x = k) f xs) = List.find (\<lambda>x. key x = k') xs"
  by (induction xs) auto

lemma not_busy_updateStatus:
  assumes "st \<noteq> Busy" and "\<not> worker_busy ws k'"
  shows "\<not> worker_busy (updateStatus k st cc now ws) k'"
proof (cases "k' = k")
  case True
  with assms(1) show ?thesis
    by (auto simp: worker_busy_def find_updateStatus_same)
next
  case False
  have "List.find (\<lambda>w. w_id w = k') (updateStatus k st cc now ws) = List.find (\<lambda>w. w_id w = k') ws"
    unfolding updateStatus_def by (rule find_update_first_other) (simp_all add: False)
  with assms(2) show ?thesis by (simp add: worker_busy_def)
qed

lemma active_sessions_end_inactive:
  "\<not> room_active rs rid \<Longrightarrow> active_sessions (ChatRoom_end rid now rs) wid = active_sessions rs wid"
proof (induction rs)
  case Nil
  show ?case by (simp add: ChatRoom_end_def)
next
  case (Cons r rs)
  show ?case
  proof (cases "r_roomId r = rid")
    case True
    with Cons.prems show ?thesis
      by (simp add: room_active_def ChatRoom_end_def active_sessions_def)
  next
    case False
    with Cons.prems have "\<not> room_active rs rid" by (simp add: room_active_def)
    from Cons.IH [OF this] False show ?thesis
      by (simp add: ChatRoom_end_def active_sessions_def)
  qed
qed

lemma broker_inv_end_inactive:
  assumes inv: "broker_inv ws rs" and idle: "\<not> room_active rs rid"
  shows "broker_inv ws (ChatRoom_end rid now rs)"
proof -
  from inv have dw: "distinct (map w_id ws)" and dr: "distinct (map r_roomId rs)"
    and cnt: "\<And>w. w \<in> set ws \<Longrightarrow> active_sessions rs (w_id w) = (if w_status w = Busy then 1 else 0)"
    and ref: "\<And>r. r \<in> set rs \<Longrightarrow> r_status r = Active \<Longrightarrow> r_workerId r \<in> set (map w_id ws)"
    by (auto simp: broker_inv_def list_all_iff)
  have r': "r_workerId r' \<in> set (map w_id ws)"
    if "r' \<in> set (ChatRoom_end rid now rs)" "r_status r' = Active" for r'
    using ref [OF set_ChatRoom_end [OF that] that(2)] .
  from dw dr cnt r' show ?thesis
    unfolding broker_inv_def list_all_iff
    by (simp add: map_r_roomId_end active_sessions_end_inactive [OF idle])
qed

lemma broker_inv_release_ok:
  assumes inv: "broker_inv ws rs" and ok: "release_ok rid wid ws rs"
  shows "broker_inv (updateStatus wid Available cc now ws) (ChatRoom_end rid now rs)"
proof (cases "names_active_room rid wid rs")
  case True
  from broker_inv_release [OF inv True] show ?thesis .
next
  case False
  with ok have r: "\<not> room_active rs rid" and w: "\<not> worker_busy ws wid"
    by (simp_all add: release_ok_def)
  from w have "map_option w_status (List.find (\<lambda>w. w_id w = wid) ws) \<noteq> Some Busy"
    by (simp add: worker_busy_def)
  from broker_inv_idle [OF inv this, of Available cc now]
  have "broker_inv (updateStatus wid Available cc now ws) rs" by simp
  from broker_inv_end_inactive [OF this r] show ?thesis .
qed

lemma release_ok_updateStatus:
  assumes "st \<noteq> Busy" and "release_ok rid wid ws rs"
  shows "release_ok rid wid (updateStatus k st cc now ws) rs"
  using assms not_busy_updateStatus [of st ws wid k cc now]
  by (auto simp: release_ok_def)

lemma findAvailableWorker_Some:
  "findAvailableWorker ws = Some wk \<Longrightarrow> wk \<in> set ws \<and> w_status wk = Available"
  by (auto simp: findAvailableWorker_find find_Some_iff)

lemma busy_inv_post_customer_join:
  assumes inv: "busy_iff_session s" and ok: "room_created now rnd s"
  shows "busy_iff_session (fst (post_customer_join now rnd s))"
proof (cases "findAvailableWorker (workers s)")
  case None
  with inv show ?thesis by (simp add: post_customer_join_def join_continue_def)
next
  case (Some wk)
  let ?cid = "new_customerId now rnd"
  let ?room = "''room_'' @ ?cid @ ''_'' @ w_id wk"
  from findAvailableWorker_Some [OF Some] have wk: "wk \<in> set (workers s)" "w_status wk = Available"
    by simp_all
  show ?thesis
  proof (cases "ChatRoom_create ?room ?cid wk now (chatRooms s)")
    case (Inl e)
    with Some ok show ?thesis by (simp add: room_created_def)
  next
    case (Inr rs')
    from inv have "broker_inv (workers s) (chatRooms s)" by (simp add: busy_iff_session_def)
    from broker_inv_assign [OF this wk Inr]
    have "broker_inv (updateStatus (w_id wk) Busy (Some ?cid) now (workers s)) rs'" .
    with Some Inr show ?thesis
      by (simp add: post_customer_join_def join_continue_def assignCustomerToWorker_def Let_def
            busy_iff_session_def split: sum.splits)
  qed
qed

lemma busy_inv_worker_join:
  assumes inv: "busy_iff_session s" and ok: "well_addressed (WorkerJoin now wid) sock s"
  shows "busy_iff_session (fst (snd (on_worker_join now wid sock s)))"
proof (cases "castObjectId wid")
  case None
  with inv show ?thesis
    by (simp add: busy_iff_session_def on_worker_join_def Let_def socket_join_def)
next
  case (Some oid)
  with ok have "map_option w_status (List.find (\<lambda>w. w_id w = oid) (workers s)) \<noteq> Some Busy"
    by (simp add: worker_busy_def)
  from broker_inv_idle [of "workers s" "chatRooms s" oid Available None now, OF _ this] inv Some
  show ?thesis
    by (simp add: busy_iff_session_def on_worker_join_def Let_def socket_join_def)
qed

lemma busy_inv_end_chat:
  assumes inv: "busy_iff_session s" and ok: "well_addressed (EndChat now rid wid) sock s"
  shows "busy_iff_session (fst (snd (on_end_chat now rid wid sock s)))"
proof (cases "castObjectId wid")
  case None
  with inv show ?thesis by (simp add: on_end_chat_def)
next
  case (Some oid)
  with ok have "release_ok rid oid (workers s) (chatRooms s)" by simp
  from broker_inv_release_ok [of "workers s" "chatRooms s" rid oid None now, OF _ this] inv Some
  show ?thesis
    by (simp add: busy_iff_session_def on_end_chat_def Let_def split: option.splits)
qed

lemma busy_inv_disconnect:
  assumes inv: "busy_iff_session s" and ok: "well_addressed (Disconnect now) sock s"
  shows "busy_iff_session (fst (snd (on_disconnect now sock s)))"
proof -
  define s0 where "s0 = s\<lparr>connected := removeAll (sock_id sock) (connected s),
                           joined := filter (\<lambda>p. fst p \<noteq> sock_id sock) (joined s)\<rparr>"
  define s1 where "s1 = (if truthy (sock_workerId sock)
                then (case castObjectId (the (sock_workerId sock)) of
                        None \<Rightarrow> s0
                      | Some oid \<Rightarrow>
                          s0\<lparr>workers := updateStatus oid Offline None now (workers s0),
                             workerSockets := AList.delete (the (sock_workerId sock)) (workerSockets s0)\<rparr>)
                else s0)"
  from inv have i0: "broker_inv (workers s) (chatRooms s)" by (simp add: busy_iff_session_def)
  have rooms: "chatRooms s1 = chatRooms s" and custs: "activeCustomers s1 = activeCustomers s"
    by (simp_all add: s1_def s0_def split: option.splits)
  have ws: "workers s1 = workers s \<or>
            (\<exists>oid. \<not> worker_busy (workers s) oid \<and>
                   workers s1 = updateStatus oid Offline None now (workers s))"
    using ok by (auto simp: s1_def s0_def split: option.splits if_splits)
  have i1: "broker_inv (workers s1) (chatRooms s)"
  proof -
    from ws show ?thesis
    proof
      assume "workers s1 = workers s"
      with i0 show ?thesis by simp
    next
      assume "\<exists>oid. \<not> worker_busy (workers s) oid \<and>
                    workers s1 = updateStatus oid Offline None now (workers s)"
      then obtain oid where b: "\<not> worker_busy (workers s) oid"
        and u: "workers s1 = updateStatus oid Offline None now (workers s)" by blast
      from b have "map_option w_status (List.find (\<lambda>w. w_id w = oid) (workers s)) \<noteq> Some Busy"
        by (simp add: worker_busy_def)
      from broker_inv_idle [OF i0 this, of Offline None now] u show ?thesis by simp
    qed
  qed
  have rel: "release_ok rid wid (workers s1) (chatRooms s)"
    if "release_ok rid wid (workers s) (chatRooms s)" for rid wid
    using ws that release_ok_updateStatus [of Offline rid wid "workers s" "chatRooms s" _ None now]
    by auto
  have r: "on_disconnect now sock s
             = (if truthy (sock_customerId sock) \<and> truthy (sock_roomId sock)
                then (case map_of (activeCustomers s1) (the (sock_customerId sock)) of
                        Some c \<Rightarrow>
                          (sock,
                           s1\<lparr>workers := updateStatus (c_workerId c) Available None now (workers s1),
                              chatRooms := ChatRoom_end (the (sock_roomId sock)) now (chatRooms s1),
                              activeCustomers := AList.delete (the (sock_customerId sock)) (activeCustomers s1)\<rparr>,
                           [Emit (ToRoom (''worker_'' @ c_workerId c))
                              (CustomerDisconnected (the (sock_customerId sock)))])
                      | None \<Rightarrow> (sock, s1, []))
                else (sock, s1, []))"
    unfolding on_disconnect_def Let_def s0_def [symmetric]
    unfolding s1_def [symmetric]
    by simp
  show ?thesis
  proof (cases "truthy (sock_customerId sock) \<and> truthy (sock_roomId sock)")
    case False
    then have "on_disconnect now sock s = (sock, s1, [])" by (auto simp: r)
    with i1 rooms show ?thesis by (simp add: busy_iff_session_def)
  next
    case True
    show ?thesis
    proof (cases "map_of (activeCustomers s) (the (sock_customerId sock))")
      case None
      with True i1 rooms custs show ?thesis by (simp add: r busy_iff_session_def)
    next
      case (Some c)
      with True ok have "release_ok (the (sock_roomId sock)) (c_workerId c) (workers s) (chatRooms s)"
        by simp
      from broker_inv_release_ok [OF i1 rel [OF this], of None now] True Some rooms custs
      show ?thesis by (simp add: r busy_iff_session_def)
    qed
  qed
qed

lemma busy_inv_others:
  "busy_iff_session s \<Longrightarrow> busy_iff_session (fst (snd (on_customer_join cid rid sock s)))"
  "busy_iff_session s \<Longrightarrow> busy_iff_session (fst (snd (on_send_message now d sock s)))"
  "busy_iff_session s \<Longrightarrow> busy_iff_session (fst (snd (on_typing b rid sender sock s)))"
  "busy_iff_session s \<Longrightarrow> busy_iff_session (fst (snd (on_message_read rid mid sock s)))"
  "busy_iff_session s \<Longrightarrow> busy_iff_session (fst (snd (on_messages_read rid mids sock s)))"
  by (simp_all add: busy_iff_session_def on_customer_join_def on_send_message_def on_typing_def
        on_message_read_def on_messages_read_def socket_join_def Let_def
        split: option.splits sum.splits)

text \<open>
  Claim C2, as amended. From a state where a worker is busy exactly when one active
  session references it (and no active session references a worker that is not busy),
  these operations lead to such a state again: an admission that no other handler
  interleaves with and whose chat room is created; \<open>worker-join\<close> of a worker that is
  not busy; \<open>end-chat\<close> that names an active room and that room's worker, or a room
  that is not active and a worker that is not busy; the disconnect of a socket whose
  worker, if it is a worker's, is not busy, and whose room, if it is a joined
  customer's, goes in the same way with the customer's worker; any of these with a
  worker id that does not cast; and every other socket event.
\<close>

theorem busy_invariant_preserved:
  assumes "busy_iff_session s" and "well_addressed e sock s"
  shows "busy_iff_session (fst (snd (step e sock s)))"
proof (cases e)
  case (PostCustomerJoin now rnd)
  with assms busy_inv_post_customer_join [of s now rnd] show ?thesis
    by (cases "post_customer_join now rnd s") simp
next
  case (WorkerJoin now wid)
  with assms show ?thesis by (simp add: busy_inv_worker_join)
next
  case (EndChat now rid wid)
  with assms show ?thesis by (simp add: busy_inv_end_chat)
next
  case (Disconnect now)
  with assms show ?thesis by (simp add: busy_inv_disconnect)
qed (simp_all add: assms(1) busy_inv_others)

text \<open>
  The theorem above on the example session (its end, a second \<open>end-chat\<close> after the
  end, its customer's disconnect) and on a pool of one idle worker (an admission, the
  worker's disconnect, the worker's join).
\<close>

theorem busy_invariant_preserved_witness:
  "busy_iff_session in_session \<and>
   well_addressed (EndChat 5000 ''room_customer_1000_aaa_64f1a2b3c4d5e6f708192a3b'' ''64f1a2b3c4d5e6f708192a3b'') worker_socket in_session \<and>
   busy_iff_session (fst (snd (step (EndChat 5000 ''room_customer_1000_aaa_64f1a2b3c4d5e6f708192a3b'' ''64f1a2b3c4d5e6f708192a3b'') worker_socket in_session))) \<and>
   busy_iff_session ended_session \<and>
   well_addressed (EndChat 6000 ''room_customer_1000_aaa_64f1a2b3c4d5e6f708192a3b'' ''64f1a2b3c4d5e6f708192a3b'') worker_socket ended_session \<and>
   busy_iff_session (fst (snd (step (EndChat 6000 ''room_customer_1000_aaa_64f1a2b3c4d5e6f708192a3b'' ''64f1a2b3c4d5e6f708192a3b'') worker_socket ended_session))) \<and>
   well_addressed (Disconnect 7000) customer_socket in_session \<and>
   busy_iff_session (fst (snd (step (Disconnect 7000) customer_socket in_session))) \<and>
   busy_iff_session one_available \<and>
   well_addressed (PostCustomerJoin 1000 ''aaa'') (demo_socket ''http'') one_available \<and>
   busy_iff_session (fst (snd (step (PostCustomerJoin 1000 ''aaa'') (demo_socket ''http'') one_available))) \<and>
   well_addressed (Disconnect 8000) worker_socket one_available \<and>
   busy_iff_session (fst (snd (step (Disconnect 8000) worker_socket one_available))) \<and>
   well_addressed (WorkerJoin 9000 ''64f1a2b3c4d5e6f708192a3b'') (demo_socket ''sockW2'') one_available \<and>
   busy_iff_session (fst (snd (step (WorkerJoin 9000 ''64f1a2b3c4d5e6f708192a3b'') (demo_socket ''sockW2'') one_available)))"
proof -
  note inv_defs = busy_iff_session_def broker_inv_def active_sessions_def names_active_room_def
    release_ok_def room_active_def worker_busy_def room_created_def
  have i1: "busy_iff_session in_session" by (simp add: eval_defs inv_defs)
  have i2: "busy_iff_session ended_session" by (simp add: eval_defs inv_defs ended_session_def)
  have i3: "busy_iff_session one_available" by (simp add: eval_defs inv_defs)
  have a1: "well_addressed (EndChat 5000 ''room_customer_1000_aaa_64f1a2b3c4d5e6f708192a3b'' ''64f1a2b3c4d5e6f708192a3b'') worker_socket in_session"
    by (simp add: eval_defs inv_defs)
  have a2: "well_addressed (EndChat 6000 ''room_customer_1000_aaa_64f1a2b3c4d5e6f708192a3b'' ''64f1a2b3c4d5e6f708192a3b'') worker_socket ended_session"
    by (simp add: eval_defs inv_defs ended_session_def)
  have a3: "well_addressed (Disconnect 7000) customer_socket in_session"
    by (simp add: eval_defs inv_defs)
  have a4: "well_addressed (PostCustomerJoin 1000 ''aaa'') (demo_socket ''http'') one_available"
    by (simp add: eval_defs inv_defs)
  have a5: "well_addressed (Disconnect 8000) worker_socket one_available"
    by (simp add: eval_defs inv_defs)
  have a6: "well_addressed (WorkerJoin 9000 ''64f1a2b3c4d5e6f708192a3b'') (demo_socket ''sockW2'') one_available"
    by (simp add: eval_defs inv_defs)
  from i1 i2 i3 a1 a2 a3 a4 a5 a6
    busy_invariant_preserved [OF i1 a1] busy_invariant_preserved [OF i2 a2]
    busy_invariant_preserved [OF i1 a3] busy_invariant_preserved [OF i3 a4]
    busy_invariant_preserved [OF i3 a5] busy_invariant_preserved [OF i3 a6]
  show ?thesis by blast
qed

text \<open>
  A busy worker joins again while its session is active: it is available afterwards and
  the room is still active. And \<open>end-chat\<close> that names the active room with the id of
  another worker ends the room and leaves its worker busy.
\<close>

theorem worker_join_breaks_invariant_counterexample:
  "busy_iff_session in_session \<and>
   \<not> busy_iff_session (fst (snd (step (WorkerJoin 2000 ''64f1a2b3c4d5e6f708192a3b'') (demo_socket ''sockW2'') in_session))) \<and>
   map w_status (workers (fst (snd (step (WorkerJoin 2000 ''64f1a2b3c4d5e6f708192a3b'') (demo_socket ''sockW2'') in_session)))) = [Available] \<and>
   map r_status (chatRooms (fst (snd (step (WorkerJoin 2000 ''64f1a2b3c4d5e6f708192a3b'') (demo_socket ''sockW2'') in_session)))) = [Active] \<and>
   \<not> busy_iff_session (fst (snd (step (EndChat 3000 ''room_customer_1000_aaa_64f1a2b3c4d5e6f708192a3b'' ''64f1a2b3c4d5e6f708192a3c'') worker_socket in_session))) \<and>
   map w_status (workers (fst (snd (step (EndChat 3000 ''room_customer_1000_aaa_64f1a2b3c4d5e6f708192a3b'' ''64f1a2b3c4d5e6f708192a3c'') worker_socket in_session)))) = [Busy] \<and>
   map r_status (chatRooms (fst (snd (step (EndChat 3000 ''room_customer_1000_aaa_64f1a2b3c4d5e6f708192a3b'' ''64f1a2b3c4d5e6f708192a3c'') worker_socket in_session)))) = [Ended]"
  by (simp add: eval_defs busy_iff_session_def broker_inv_def active_sessions_def)

text \<open>
  The disconnect of the worker's socket sets the worker offline and leaves its room
  active; the customer's branch of the same handler ends the room.
\<close>

lemma worker_disconnect_leaves_room_active:
  "map w_status (workers in_session) = [Busy] \<and>
   map w_status (workers (fst (snd (step (Disconnect 8000) worker_socket in_session)))) = [Offline] \<and>
   map r_status (chatRooms (fst (snd (step (Disconnect 8000) worker_socket in_session)))) = [Active]"
  by (simp add: eval_defs)
end
